theory Spec2Isabelle
  imports Complex_Main "HOL-Library.FSet" "HOL-Library.AList" "HOL-Library.Product_Lexorder"
    "HOL-Library.Multiset"
begin

text \<open>
  A model of the learning and suggestion core of II-20: the seen set, the collection
  index, the buckets with their linear SVM, the discard pile, the randomized explorer and
  the orchestrating \<^verbatim>\<open>AIModel\<close>. Every method is a function on the state of its object
  and of the objects it shares, returning the new state together with its result or the
  error it raises. The model comes first, its properties after it.
\<close>

section \<open>Errors\<close>

text \<open>
  The messages of the \<^verbatim>\<open>ValueError\<close>s the modelled code raises. Each constructor stands
  for one message of the source (or of the library call that raises it).
\<close>

datatype value_error =
    NoQueryImages            \<comment> \<open>"No query images provided."\<close>
  | InvalidBucketKey         \<comment> \<open>"Invalid bucket key, could not retrieve the bucket."\<close>
  | TooManyBuckets           \<comment> \<open>"The maximum number of buckets (%s) already reached, cannot create any more."\<close>
  | BucketNotActive          \<comment> \<open>the message of a \<^verbatim>\<open>BucketNotActiveError\<close>, raised again as a \<^verbatim>\<open>ValueError\<close>\<close>
  | NoTrainedBuckets         \<comment> \<open>"Cannot fast-forward the discard pile: No buckets with an active model ..."\<close>
  | InvalidTransferMode      \<comment> \<open>"Invalid transfer mode in transfer_images."\<close>
  | CopyDiscardPile          \<comment> \<open>"Cannot copy images from/to the discard pile, use 'Move'."\<close>
  | NotInBucket              \<comment> \<open>"Image %s not a member of bucket %s, transfer aborted."\<close>
  | NotInDiscardPile         \<comment> \<open>"Cannot restore an image from a discard pile that is not there."\<close>
  | ListLengthsMismatch      \<comment> \<open>"[BUG] Cannot produce suggestions, the lengths of the sugg lists do not match!"\<close>
  | SampleLargerThanPopulation \<comment> \<open>raised by \<^verbatim>\<open>random.sample\<close>\<close>
  | ZeroSizeReduction        \<comment> \<open>raised by \<^verbatim>\<open>np.min\<close> and \<^verbatim>\<open>np.max\<close> on an empty axis\<close>
  | InvalidFastForward       \<comment> \<open>"The number of fast-forwards must be a positive integer!"\<close>
  | CannotConvertNaN         \<comment> \<open>raised by \<^verbatim>\<open>int\<close> on a NaN\<close>

text \<open>
  \<open>DatasetExhaustedError\<close> records that the statement \<^verbatim>\<open>raise DatasetExhaustedError\<close> was
  reached. The class is declared in \<^verbatim>\<open>SeenImages.py\<close> without a base class; how the
  interpreter reports the raise of such a class is not modelled.
\<close>

datatype error =
    ValueError value_error
  | KeyError
  | IndexError
  | AttributeError
  | OverflowError
  | BucketNotActiveError
  | DatasetExhaustedError

section \<open>SeenImages\<close>

text \<open>
  \<^verbatim>\<open>self.seen\<close> is a Python set (finite by construction), \<^verbatim>\<open>self.n\<close> the number of images
  in the collection. Image IDs are natural numbers.
\<close>

record SeenImages =
  seen :: "nat fset"
  n_coll :: nat    \<comment> \<open>\<^verbatim>\<open>self.n\<close>\<close>

definition SeenImages_init :: "nat \<Rightarrow> SeenImages" where
  "SeenImages_init k = \<lparr>seen = {||}, n_coll = k\<rparr>"

definition len_seen :: "SeenImages \<Rightarrow> nat" where
  "len_seen s = fcard (seen s)"

definition is_seen :: "SeenImages \<Rightarrow> nat \<Rightarrow> bool" where
  "is_seen s img = (img |\<in>| seen s)"

text \<open>
  \<^verbatim>\<open>update\<close> first extends the set in place and then compares its size with \<^verbatim>\<open>self.n\<close>;
  the raise leaves the extended set behind, so the model returns the new state together
  with the error, if any.
\<close>

definition update :: "SeenImages \<Rightarrow> nat list \<Rightarrow> SeenImages \<times> error option" where
  "update s new_seen =
     (let s' = s\<lparr>seen := seen s |\<union>| fset_of_list new_seen\<rparr>
      in (s', if len_seen s' = n_coll s' then Some DatasetExhaustedError else None))"

text \<open>The read-only queries of the class. None of them touches \<^verbatim>\<open>self.seen\<close>.\<close>

definition all_unseen :: "SeenImages \<Rightarrow> nat list \<Rightarrow> nat fset" where
  "all_unseen s exclude = (fset_of_list [0..<n_coll s] |-| seen s) |-| fset_of_list exclude"

definition remove_seen :: "SeenImages \<Rightarrow> nat list \<Rightarrow> nat list \<Rightarrow> nat fset" where
  "remove_seen s imgs exclude = (fset_of_list imgs |-| seen s) |-| fset_of_list exclude"

section \<open>CollectionIndex\<close>

text \<open>
  The product-quantisation index at query time. \<^verbatim>\<open>self.index\<close> is an array with one row
  per image and one cluster code per subquantiser; \<^verbatim>\<open>self.distance_matrix\<close> holds, per
  subquantiser, the table of centroid-to-centroid distances. Both are arrays loaded from
  disk; they are modelled as nested lists, and a read outside a list is the
  \<^verbatim>\<open>IndexError\<close> numpy raises. The float64 entries are idealised as reals.
\<close>

record CollectionIndex =
  index :: "nat list list"
  distance_matrix :: "real list list list"

definition n_submat :: "CollectionIndex \<Rightarrow> nat" where
  "n_submat ci = length (distance_matrix ci)"

text \<open>\<^verbatim>\<open>self.index[img, s]\<close>: the codes of the images \<open>img\<close> in subquantiser \<open>s\<close>.\<close>

definition index_codes :: "nat list list \<Rightarrow> nat list \<Rightarrow> nat \<Rightarrow> error + nat list" where
  "index_codes idx img s =
     (if list_all (\<lambda>i. i < length idx \<and> s < length (idx ! i)) img
      then Inr (map (\<lambda>i. idx ! i ! s) img)
      else Inl IndexError)"

text \<open>\<^verbatim>\<open>self.distance_matrix[s, c1][:, c2]\<close> for the table \<open>d\<close> of subquantiser \<open>s\<close>.\<close>

definition centroid_dists :: "real list list \<Rightarrow> nat list \<Rightarrow> nat list \<Rightarrow> error + real list list" where
  "centroid_dists d c1 c2 =
     (if list_all (\<lambda>a. a < length d \<and> list_all (\<lambda>b. b < length (d ! a)) c2) c1
      then Inr (map (\<lambda>a. map (\<lambda>b. d ! a ! b) c2) c1)
      else Inl IndexError)"

text \<open>\<^verbatim>\<open>distances += m\<close> on arrays of the same shape.\<close>

definition mat_add :: "real list list \<Rightarrow> real list list \<Rightarrow> real list list" where
  "mat_add a b = map2 (\<lambda>r1 r2. map2 (+) r1 r2) a b"

text \<open>The loop \<^verbatim>\<open>for s in range(self.n_submat)\<close>, run over the list of remaining \<open>s\<close>.\<close>

fun distances_loop ::
  "CollectionIndex \<Rightarrow> nat list \<Rightarrow> nat list \<Rightarrow> nat list \<Rightarrow> real list list \<Rightarrow> error + real list list"
where
  "distances_loop ci img1 img2 [] acc = Inr acc"
| "distances_loop ci img1 img2 (s # ss) acc =
     (case index_codes (index ci) img1 s of
        Inl e \<Rightarrow> Inl e
      | Inr c1 \<Rightarrow>
          (if \<not> s < length (distance_matrix ci) then Inl IndexError
           else case index_codes (index ci) img2 s of
              Inl e \<Rightarrow> Inl e
            | Inr c2 \<Rightarrow>
                (case centroid_dists (distance_matrix ci ! s) c1 c2 of
                   Inl e \<Rightarrow> Inl e
                 | Inr m \<Rightarrow> distances_loop ci img1 img2 ss (mat_add acc m))))"

definition distances :: "CollectionIndex \<Rightarrow> nat list \<Rightarrow> nat list \<Rightarrow> error + real list list" where
  "distances ci img1 img2 =
     (let n_queries = length img1 in
      if n_queries = 0 then Inl (ValueError NoQueryImages)
      else
        let n_cols = length img2;
            zeros = replicate n_queries (replicate n_cols 0)
        in distances_loop ci img1 img2 [0..<n_submat ci] zeros)"

text \<open>
  A well-formed index for a collection: every row of \<^verbatim>\<open>index\<close> has one code per
  subquantiser, every code addresses a row and a column of that subquantiser's table.
\<close>

definition index_ok :: "CollectionIndex \<Rightarrow> bool" where
  "index_ok ci =
     list_all (\<lambda>row. length row = n_submat ci \<and>
        list_all (\<lambda>s. row ! s < length (distance_matrix ci ! s) \<and>
           list_all (\<lambda>r. length r = length (distance_matrix ci ! s)) (distance_matrix ci ! s))
          [0..<n_submat ci])
       (index ci)"

text \<open>
  The distance the specification describes for a pair of images in one subquantiser: the
  entry of that subquantiser's table at the two images' cluster codes.
\<close>

definition pq_dist :: "CollectionIndex \<Rightarrow> nat \<Rightarrow> nat \<Rightarrow> nat \<Rightarrow> real" where
  "pq_dist ci s i j = distance_matrix ci ! s ! (index ci ! i ! s) ! (index ci ! j ! s)"

section \<open>Floating-point values of the confidence computation\<close>

text \<open>
  The SVM scores are finite float64 values, idealised as reals. The quotient
  \<^verbatim>\<open>s/self.best_img_svm_score\<close> is a numpy float64 division: with a zero divisor it
  does not raise, it yields an infinity or, for \<^verbatim>\<open>0.0/0.0\<close>, a NaN.
  Python's \<^verbatim>\<open>max(a, b)\<close> returns \<open>a\<close> unless \<^verbatim>\<open>b > a\<close>, and \<^verbatim>\<open>min(a, b)\<close> returns
  \<open>a\<close> unless \<^verbatim>\<open>b < a\<close>; every comparison with a NaN is false.
\<close>

datatype fl = Fin real | PInf | MInf | NaN

definition np_divide :: "real \<Rightarrow> real \<Rightarrow> fl" where
  "np_divide a b =
     (if b \<noteq> 0 then Fin (a / b)
      else if 0 < a then PInf
      else if a < 0 then MInf
      else NaN)"

fun fl_less :: "fl \<Rightarrow> fl \<Rightarrow> bool" where
  "fl_less NaN _ = False"
| "fl_less _ NaN = False"
| "fl_less (Fin x) (Fin y) = (x < y)"
| "fl_less (Fin _) PInf = True"
| "fl_less MInf (Fin _) = True"
| "fl_less MInf PInf = True"
| "fl_less _ _ = False"

definition py_max :: "fl \<Rightarrow> fl \<Rightarrow> fl" where
  "py_max a b = (if fl_less a b then b else a)"

definition py_min :: "fl \<Rightarrow> fl \<Rightarrow> fl" where
  "py_min a b = (if fl_less b a then b else a)"

fun fl_uminus :: "fl \<Rightarrow> fl" where
  "fl_uminus (Fin x) = Fin (- x)"
| "fl_uminus PInf = MInf"
| "fl_uminus MInf = PInf"
| "fl_uminus NaN = NaN"

text \<open>\<^verbatim>\<open>int(x)\<close> on a float: truncation towards zero; it raises on a NaN or an infinity.\<close>

definition py_int :: "fl \<Rightarrow> error + int" where
  "py_int x =
     (case x of
        Fin r \<Rightarrow> Inr (if 0 \<le> r then \<lfloor>r\<rfloor> else \<lceil>r\<rceil>)
      | NaN \<Rightarrow> Inl (ValueError CannotConvertNaN)
      | _ \<Rightarrow> Inl OverflowError)"

fun fl_affine :: "real \<Rightarrow> real \<Rightarrow> fl \<Rightarrow> fl" where
  \<comment> \<open>\<^verbatim>\<open>a + x*b\<close> for a positive constant \<open>b\<close>\<close>
  "fl_affine a b (Fin x) = Fin (a + x * b)"
| "fl_affine a b y = y"

section \<open>BucketColorManager\<close>

text \<open>
  \<^verbatim>\<open>confidence_color\<close> appends the alpha channel
  \<^verbatim>\<open>int(CONF_ALPHA_BREAKPOINT + confidence*(255 - CONF_ALPHA_BREAKPOINT))\<close> to the
  bucket's colour string. The model keeps the alpha value only (the colour string and the
  hexadecimal formatting are left out); the conversion to \<^verbatim>\<open>int\<close> is where the call can
  raise. The assignment of colours to buckets is not modelled.
\<close>

definition CONF_ALPHA_BREAKPOINT :: real where
  "CONF_ALPHA_BREAKPOINT = 100"

definition confidence_color :: "fl \<Rightarrow> error + int" where
  "confidence_color confidence =
     py_int (fl_affine CONF_ALPHA_BREAKPOINT (255 - CONF_ALPHA_BREAKPOINT) confidence)"

text \<open>
  The list comprehension \<^verbatim>\<open>[confidence_color(self.color, conf) for conf in confs]\<close>:
  the first element that raises ends it.
\<close>

fun confidence_colors :: "fl list \<Rightarrow> error + int list" where
  "confidence_colors [] = Inr []"
| "confidence_colors (c # cs) =
     (case confidence_color c of
        Inl e \<Rightarrow> Inl e
      | Inr a \<Rightarrow> (case confidence_colors cs of Inl e \<Rightarrow> Inl e | Inr as \<Rightarrow> Inr (a # as)))"

section \<open>ImageList\<close>

text \<open>
  One entry of the standard image list. The field \<^verbatim>\<open>sugg_line_thickness\<close>, a display value
  derived from the confidence, is left out. \<open>None\<close> is Python's \<^verbatim>\<open>None\<close>.
\<close>

record sugg =
  s_image :: nat
  s_confidence :: "fl option"
  s_confidence_color :: "int option"
  s_bucket :: int
  s_is_fast_forward :: bool
  s_is_al_query :: bool

text \<open>\<^verbatim>\<open>if not flags: flags = [False for img in images]\<close>: \<^verbatim>\<open>None\<close> and \<^verbatim>\<open>[]\<close> are both falsy.\<close>

definition default_flags :: "bool list option \<Rightarrow> nat list \<Rightarrow> bool list" where
  "default_flags flags imgs =
     (case flags of
        None \<Rightarrow> map (\<lambda>_. False) imgs
      | Some [] \<Rightarrow> map (\<lambda>_. False) imgs
      | Some fs \<Rightarrow> fs)"

definition image_list ::
  "int \<Rightarrow> nat list \<Rightarrow> fl option list \<Rightarrow> int option list \<Rightarrow> bool list option \<Rightarrow> bool list option
     \<Rightarrow> error + sugg list"
where
  "image_list bucket imgs confidences conf_colors is_fast_forward is_al_query =
     (let is_ff = default_flags is_fast_forward imgs;
          is_al = default_flags is_al_query imgs;
          sugg_list_lengths =
            [length imgs, length confidences, length conf_colors, length is_ff, length is_al];
          sugg_list_lengths_do_not_match =
            list_ex (\<lambda>i. sugg_list_lengths ! i \<noteq> sugg_list_lengths ! (i + 1))
              [0..<length sugg_list_lengths - 1]
      in if sugg_list_lengths_do_not_match then Inl (ValueError ListLengthsMismatch)
         else Inr (map (\<lambda>i. \<lparr>s_image = imgs ! i,
                               s_confidence = confidences ! i,
                               s_confidence_color = conf_colors ! i,
                               s_bucket = bucket,
                               s_is_fast_forward = is_ff ! i,
                               s_is_al_query = is_al ! i\<rparr>)
                    [0..<length imgs]))"

section \<open>The external collaborators\<close>

text \<open>
  The configuration dictionary of the model (\<^verbatim>\<open>DEFAULT_MODEL_CONFIG\<close> shows its format):
  the oracle mode with its \<^verbatim>\<open>al_ratio\<close>, and the optional \<^verbatim>\<open>expsearch\<close> entry with its
  method and number of rounds.
\<close>

datatype oracle_mode = Rf | Al real
datatype expsearch_method = Knn | Ann

record model_config =
  n_sugg_candidates :: nat
  expsearch :: "(expsearch_method \<times> nat) option"
  oracle_conf :: oracle_mode    \<comment> \<open>the entry \<^verbatim>\<open>oracle\<close>\<close>

text \<open>
  What the modelled classes take from outside the repository's decision logic: the
  dataset registry (\<^verbatim>\<open>DatasetConfigManager\<close>), the random number generators, scikit-learn's
  linear SVM and the nearest-neighbour look-ups. The random generators and the trainer are
  functions of an abstract generator state \<open>'r\<close>, which every call hands on, so that two
  calls need not agree.

  \<^item> \<open>dataset_n\<close>: \<^verbatim>\<open>DatasetConfigManager.n(dataset)\<close>, the size of the collection.
  \<^item> \<open>coll_index\<close>: \<^verbatim>\<open>DatasetConfigManager.index(dataset)\<close>.
  \<^item> \<open>random_sample r xs k\<close>: \<^verbatim>\<open>random.sample(xs, k)\<close> for \<open>k \<le> length xs\<close>.
  \<^item> \<open>np_random_rand r\<close>: the stream of values in \<open>[0, 1)\<close> a call of
    \<^verbatim>\<open>np.random.rand(k)\<close> draws its \<open>k\<close> values from.
  \<^item> \<open>list_of_set S\<close>: the order in which Python enumerates the set \<open>S\<close>.
  \<^item> \<open>svm_fit r train_idx n_random labels\<close>: \<^verbatim>\<open>features.get(train_idx, n_random)\<close> followed
    by \<^verbatim>\<open>svm.LinearSVC().fit(train, labels)\<close>; the result is the trained model's
    \<^verbatim>\<open>decision_function\<close> on the feature row of each image. The look-up of the
    features and the fit may raise.
  \<^item> \<open>nn_suggs r imgs scores seen_set k prev\<close>: the nearest-neighbour candidates of lines 445 to 466 of
    \<^verbatim>\<open>Bucket.suggest\<close> (the k-NN table or \<^verbatim>\<open>_ann_suggs\<close>), which may raise.
\<close>

record 'r env =
  dataset_n :: nat
  coll_index :: CollectionIndex
  config :: model_config
  random_sample :: "'r \<Rightarrow> nat list \<Rightarrow> nat \<Rightarrow> nat list \<times> 'r"
  np_random_rand :: "'r \<Rightarrow> (nat \<Rightarrow> real) \<times> 'r"
  list_of_set :: "nat fset \<Rightarrow> nat list"
  svm_fit :: "'r \<Rightarrow> nat list \<Rightarrow> nat \<Rightarrow> int list \<Rightarrow> (error + (nat \<Rightarrow> real)) \<times> 'r"
  nn_suggs :: "'r \<Rightarrow> nat list \<Rightarrow> real list \<Rightarrow> nat fset \<Rightarrow> nat \<Rightarrow> nat list \<Rightarrow> (error + nat list) \<times> 'r"

text \<open>
  \<^verbatim>\<open>np.argsort\<close>: the indices that sort the keys ascending, NaN last. numpy's default
  sort leaves the order of equal keys open; the model takes the stable order.
\<close>

fun fl_key :: "fl \<Rightarrow> nat \<times> real" where
  "fl_key MInf = (0, 0)"
| "fl_key (Fin x) = (1, x)"
| "fl_key PInf = (2, 0)"
| "fl_key NaN = (3, 0)"

definition np_argsort :: "fl list \<Rightarrow> nat list" where
  "np_argsort keys = sort_key (\<lambda>i. fl_key (keys ! i)) [0..<length keys]"

text \<open>\<^verbatim>\<open>random.sample(population, k)\<close> raises when \<open>k\<close> exceeds the population.\<close>

definition py_random_sample ::
  "'r env \<Rightarrow> 'r \<Rightarrow> nat list \<Rightarrow> nat \<Rightarrow> (error + nat list) \<times> 'r" where
  "py_random_sample e r population k =
     (if length population < k then (Inl (ValueError SampleLargerThanPopulation), r)
      else (case random_sample e r population k of (xs, r') \<Rightarrow> (Inr xs, r')))"

text \<open>\<^verbatim>\<open>sum(np.random.rand(k) < p)\<close>: how many of \<open>k\<close> draws fall below \<open>p\<close>.\<close>

definition count_below :: "'r env \<Rightarrow> 'r \<Rightarrow> nat \<Rightarrow> real \<Rightarrow> nat \<times> 'r" where
  "count_below e r k p =
     (case np_random_rand e r of
        (draws, r') \<Rightarrow> (length (filter (\<lambda>i. draws i < p) [0..<k]), r'))"

section \<open>DiscardPile and RandomizedExplorer state, and the objects every bucket shares\<close>

text \<open>
  Field names are global in a record, so the three \<^verbatim>\<open>outstanding_suggs\<close> of the source
  (of \<^verbatim>\<open>RandomizedExplorer\<close>, \<^verbatim>\<open>Bucket\<close> and \<^verbatim>\<open>AIModel\<close>) and the two \<^verbatim>\<open>outstanding_ff\<close>
  carry a prefix.
\<close>

record DiscardPile =
  pile :: "nat list"
  dp_outstanding_ff :: "nat list"

definition BUCKET_ID :: int where
  "BUCKET_ID = 0"

record RandomizedExplorer =
  re_outstanding_suggs :: "nat list"

text \<open>
  \<^verbatim>\<open>AIModel.__init__\<close> creates one \<^verbatim>\<open>SeenImages\<close>, one \<^verbatim>\<open>DiscardPile\<close> and one
  \<^verbatim>\<open>RandomizedExplorer\<close> and hands the same objects to every bucket. The model keeps them in
  one record, which every operation that touches them takes and returns, together with the
  state of the random generators.
\<close>

record 'r shared =
  seen_images :: SeenImages
  discard_pile :: DiscardPile
  randomized_explorer :: RandomizedExplorer
  rng :: 'r

text \<open>\<^verbatim>\<open>SeenImages.random_unseen_images\<close>, which draws on the random generator.\<close>

definition random_unseen_images ::
  "'r env \<Rightarrow> 'r \<Rightarrow> SeenImages \<Rightarrow> nat \<Rightarrow> nat list \<Rightarrow> (error + nat list) \<times> 'r" where
  "random_unseen_images e r s n_random exclude =
     (let candidates = all_unseen s exclude in
      if fcard candidates = 0 then (Inl DatasetExhaustedError, r)
      else if fcard candidates < n_random then (Inr (list_of_set e candidates), r)
      else (case random_sample e r (list_of_set e candidates) n_random of
              (xs, r') \<Rightarrow> (Inr xs, r')))"

subsection \<open>DiscardPile\<close>

definition discard_images :: "DiscardPile \<Rightarrow> nat list \<Rightarrow> DiscardPile" where
  "discard_images dp images_to_discard = dp\<lparr>pile := pile dp @ images_to_discard\<rparr>"

text \<open>
  \<^verbatim>\<open>restore_images\<close>: \<^verbatim>\<open>del xs[xs.index(img)]\<close> removes the first occurrence. An image
  found in neither list raises, and leaves what the loop did before it in place; so does
  a raise of \<^verbatim>\<open>update\<close>.
\<close>

fun restore_images :: "'r shared \<Rightarrow> nat list \<Rightarrow> 'r shared \<times> error option" where
  "restore_images sh [] = (sh, None)"
| "restore_images sh (img # imgs) =
     (let dp = discard_pile sh in
      if img \<in> set (pile dp)
      then restore_images (sh\<lparr>discard_pile := dp\<lparr>pile := remove1 img (pile dp)\<rparr>\<rparr>) imgs
      else if img \<in> set (dp_outstanding_ff dp)
      then (case update (seen_images sh) [img] of
              (s', Some err) \<Rightarrow> (sh\<lparr>seen_images := s'\<rparr>, Some err)
            | (s', None) \<Rightarrow>
                restore_images
                  (sh\<lparr>seen_images := s',
                      discard_pile := dp\<lparr>dp_outstanding_ff := remove1 img (dp_outstanding_ff dp)\<rparr>\<rparr>)
                  imgs)
      else (sh, Some (ValueError NotInDiscardPile)))"

definition DiscardPile_fast_forward :: "DiscardPile \<Rightarrow> nat list \<Rightarrow> DiscardPile" where
  "DiscardPile_fast_forward dp ff = dp\<lparr>dp_outstanding_ff := ff\<rparr>"

definition DiscardPile_ff_commit :: "'r shared \<Rightarrow> 'r shared \<times> error option" where
  "DiscardPile_ff_commit sh =
     (let dp = discard_pile sh;
          dp1 = dp\<lparr>pile := pile dp @ dp_outstanding_ff dp\<rparr>
      in case update (seen_images sh) (dp_outstanding_ff dp) of
           (s', Some err) \<Rightarrow> (sh\<lparr>seen_images := s', discard_pile := dp1\<rparr>, Some err)
         | (s', None) \<Rightarrow>
             (sh\<lparr>seen_images := s', discard_pile := dp1\<lparr>dp_outstanding_ff := []\<rparr>\<rparr>, None))"

subsection \<open>RandomizedExplorer\<close>

definition N_SUGG_CANDIDATE_MULT :: nat where
  "N_SUGG_CANDIDATE_MULT = 100"

text \<open>\<^verbatim>\<open>np.min(d, axis=1)\<close>: the minimum of every row; it raises on rows without entries.\<close>

definition row_mins :: "real list list \<Rightarrow> error + real list" where
  "row_mins d =
     (if list_ex (\<lambda>row. row = []) d then Inl (ValueError ZeroSizeReduction)
      else Inr (map (\<lambda>row. Min (set row)) d))"

text \<open>
  The body of \<^verbatim>\<open>if n_new_rand_exp > 0\<close> up to the new suggestions: a random pool of unseen
  candidates, ranked by their distance to the seen set; a \<^verbatim>\<open>ValueError\<close> in the ranking
  falls back to a random sample of the whole collection.
\<close>

definition explorer_new ::
  "'r env \<Rightarrow> 'r shared \<Rightarrow> nat \<Rightarrow> nat list \<Rightarrow> (error + nat list) \<times> 'r shared" where
  "explorer_new e sh n_new_rand_exp prev_suggs =
     (case random_unseen_images e (rng sh) (seen_images sh)
             (n_new_rand_exp * N_SUGG_CANDIDATE_MULT) prev_suggs of
        (Inl err, r) \<Rightarrow> (Inl err, sh\<lparr>rng := r\<rparr>)
      | (Inr rand_candidates, r) \<Rightarrow>
          (let ranked =
                 (case distances (coll_index e) rand_candidates
                         (list_of_set e (seen (seen_images sh))) of
                    Inl err \<Rightarrow> Inl err
                  | Inr candidate_dists \<Rightarrow>
                      (case row_mins candidate_dists of
                         Inl err \<Rightarrow> Inl err
                       | Inr min_dists \<Rightarrow>
                           Inr (map (\<lambda>i. rand_candidates ! i)
                                  (take n_new_rand_exp
                                     (np_argsort (map (\<lambda>d. Fin (- d)) min_dists))))))
           in case ranked of
                Inr new_rand_exp \<Rightarrow> (Inr new_rand_exp, sh\<lparr>rng := r\<rparr>)
              | Inl (ValueError _) \<Rightarrow>
                  (case py_random_sample e r [0..<dataset_n e] n_new_rand_exp of
                     (res, r') \<Rightarrow> (res, sh\<lparr>rng := r'\<rparr>))
              | Inl err \<Rightarrow> (Inl err, sh\<lparr>rng := r\<rparr>)))"

text \<open>\<^verbatim>\<open>suggest\<close> with \<^verbatim>\<open>return_raw_suggs=True\<close>: the image IDs.\<close>

definition RandomizedExplorer_suggest_raw ::
  "'r env \<Rightarrow> 'r shared \<Rightarrow> nat \<Rightarrow> bool \<Rightarrow> nat list \<Rightarrow> (error + nat list) \<times> 'r shared" where
  "RandomizedExplorer_suggest_raw e sh n_suggs refresh prev_suggs =
     (let suggs_images =
            (if refresh then [] else take n_suggs (re_outstanding_suggs (randomized_explorer sh)));
          n_new_rand_exp = n_suggs - length suggs_images
      in if 0 < n_new_rand_exp
         then (case explorer_new e sh n_new_rand_exp prev_suggs of
                 (Inl err, sh1) \<Rightarrow> (Inl err, sh1)
               | (Inr new_rand_exp, sh1) \<Rightarrow>
                   (Inr (suggs_images @ new_rand_exp),
                    sh1\<lparr>randomized_explorer :=
                          \<lparr>re_outstanding_suggs = suggs_images @ new_rand_exp\<rparr>\<rparr>))
         else (Inr suggs_images, sh))"

text \<open>
  \<^verbatim>\<open>suggest\<close> with \<^verbatim>\<open>return_raw_suggs=False\<close>: the entries carry no confidence and the
  discard pile's ID as their bucket.
\<close>

definition RandomizedExplorer_suggest ::
  "'r env \<Rightarrow> 'r shared \<Rightarrow> nat \<Rightarrow> bool \<Rightarrow> (error + sugg list) \<times> 'r shared" where
  "RandomizedExplorer_suggest e sh n_suggs refresh =
     (let suggs_confidences = replicate n_suggs None;
          suggs_conf_colors = replicate n_suggs None
      in case RandomizedExplorer_suggest_raw e sh n_suggs refresh [] of
           (Inl err, sh1) \<Rightarrow> (Inl err, sh1)
         | (Inr suggs_images, sh1) \<Rightarrow>
             (image_list BUCKET_ID suggs_images suggs_confidences suggs_conf_colors None None,
              sh1))"

section \<open>Bucket\<close>

text \<open>
  The state of a bucket. \<^verbatim>\<open>self.id\<close> is \<open>bucket_id\<close>; the colour of the bucket is left
  out, and a confidence colour is its alpha value. \<^verbatim>\<open>svm_model\<close> is \<^verbatim>\<open>None\<close> or the
  trained model, given by its decision function on the images. The four exploration-search
  attributes are lists with one entry per suggestion type (\<^verbatim>\<open>EXPSEARCH_SUGG_SVM\<close>,
  \<^verbatim>\<open>EXPSEARCH_SUGG_INDEX\<close>), modelled as pairs.
\<close>

record Bucket =
  bucket_id :: int
  name :: string
  ordering :: nat
  active :: bool
  images :: "nat list"
  img_confidences :: "fl list"
  img_confidence_colors :: "int list"
  img_svm_scores :: "real list"
  best_img_svm_score :: real
  negatives :: "nat list"
  active_suggs :: "sugg list option"
  n_good_suggs :: nat
  n_judged_suggs :: nat
  precision :: real
  svm_model :: "(nat \<Rightarrow> real) option"
  outstanding_ff :: "nat list"
  outstanding_ff_conf :: "fl list"
  outstanding_ff_conf_colors :: "int list"
  bad_ff :: "nat list"
  outstanding_al_queries :: "nat list"
  b_outstanding_suggs :: "nat list \<times> nat list"
  good_suggs :: "nat list \<times> nat list"
  all_suggs :: "nat list \<times> nat list"
  model_confidences :: "real \<times> real"

definition Bucket_init :: "'r env \<Rightarrow> int \<Rightarrow> string \<Rightarrow> bool \<Rightarrow> nat \<Rightarrow> Bucket" where
  "Bucket_init e ident nm is_active ord =
     (let n_rounds = (case expsearch (config e) of None \<Rightarrow> 0 | Some (_, k) \<Rightarrow> k) in
      \<lparr>bucket_id = ident, name = nm, ordering = ord, active = is_active,
       images = [], img_confidences = [], img_confidence_colors = [], img_svm_scores = [],
       best_img_svm_score = 0, negatives = [], active_suggs = None,
       n_good_suggs = 0, n_judged_suggs = 0, precision = 1, svm_model = None,
       outstanding_ff = [], outstanding_ff_conf = [], outstanding_ff_conf_colors = [],
       bad_ff = [], outstanding_al_queries = [],
       b_outstanding_suggs = ([], []),
       good_suggs = (replicate n_rounds 0, replicate n_rounds 0),
       all_suggs = (replicate n_rounds 0, replicate n_rounds 0),
       model_confidences = (1, 1)\<rparr>)"

subsection \<open>Confidences and training\<close>

text \<open>\<^verbatim>\<open>_confidence\<close>: \<^verbatim>\<open>[min(max(s/self.best_img_svm_score, 0.0), 1.0) for s in svm_scores]\<close>.\<close>

definition confidence :: "Bucket \<Rightarrow> real list \<Rightarrow> fl list" where
  "confidence b scores =
     map (\<lambda>s. py_min (py_max (np_divide s (best_img_svm_score b)) (Fin 0)) (Fin 1)) scores"

text \<open>
  \<^verbatim>\<open>_bucket_image_confidences\<close>. The attributes are assigned one after the other, so a raise
  in the colours leaves the new scores and confidences behind.
\<close>

definition bucket_image_confidences :: "Bucket \<Rightarrow> Bucket \<times> error option" where
  "bucket_image_confidences b =
     (case svm_model b of
        None \<Rightarrow> (b, Some AttributeError)
      | Some model \<Rightarrow>
          (let scores = map model (images b) in
           if scores = [] then (b\<lparr>img_svm_scores := scores\<rparr>, Some (ValueError ZeroSizeReduction))
           else
             let b1 = b\<lparr>img_svm_scores := scores, best_img_svm_score := Max (set scores)\<rparr>;
                 b2 = b1\<lparr>img_confidences := confidence b1 (img_svm_scores b1)\<rparr>
             in case confidence_colors (img_confidences b2) of
                  Inl err \<Rightarrow> (b2, Some err)
                | Inr cols \<Rightarrow> (b2\<lparr>img_confidence_colors := cols\<rparr>, None)))"

text \<open>
  \<^verbatim>\<open>_train\<close>. The negatives are padded up to twice the positives: by a random sample of
  the discard pile, or, when the pile is too small for the sample, by the whole pile and
  random images of the collection (which \<^verbatim>\<open>features.get\<close> adds).
\<close>

definition train :: "'r env \<Rightarrow> 'r shared \<Rightarrow> Bucket \<Rightarrow> (Bucket \<times> 'r shared) \<times> error option" where
  "train e sh b =
     (let positives = images b;
          n_positives = length positives
      in if n_positives = 0 then ((b\<lparr>svm_model := None\<rparr>, sh), None)
         else
           let n_negatives = length (negatives b);
               train_idx = positives @ negatives b;
               (train_idx1, n_negs_rand_coll_img, n_negatives1, r1) =
                 (if n_negatives < 2 * n_positives
                  then (let n_random_negs = 2 * n_positives - n_negatives in
                        case py_random_sample e (rng sh) (pile (discard_pile sh)) n_random_negs of
                          (Inr smp, r') \<Rightarrow> (train_idx @ smp, 0, 2 * n_positives, r')
                        | (Inl _, r') \<Rightarrow>
                            (train_idx @ pile (discard_pile sh),
                             n_random_negs - length (pile (discard_pile sh)),
                             2 * n_positives, r'))
                  else (train_idx, 0, n_negatives, rng sh));
               labels = replicate n_positives 1 @ replicate n_negatives1 (- 1)
           in case svm_fit e r1 train_idx1 n_negs_rand_coll_img labels of
                (Inl err, r2) \<Rightarrow> ((b, sh\<lparr>rng := r2\<rparr>), Some err)
              | (Inr model, r2) \<Rightarrow>
                  (case bucket_image_confidences (b\<lparr>svm_model := Some model\<rparr>) of
                     (b', err) \<Rightarrow> ((b', sh\<lparr>rng := r2\<rparr>), err)))"

subsection \<open>Feedback\<close>

text \<open>\<^verbatim>\<open>for x in ys: del xs[xs.index(x)]\<close> for elements \<open>ys\<close> of \<open>xs\<close>.\<close>

definition del_each :: "nat list \<Rightarrow> nat list \<Rightarrow> nat list" where
  "del_each xs ys = foldl (\<lambda>acc x. remove1 x acc) xs ys"

text \<open>
  One round of the loop over the suggestion types in \<^verbatim>\<open>user_feedback\<close>: the sliding
  windows drop their oldest record and take the new one; the integer division by an empty
  window total raises \<^verbatim>\<open>ZeroDivisionError\<close>, which the source turns into 1.0.
\<close>

definition slide_window ::
  "nat list \<Rightarrow> nat list \<Rightarrow> nat list \<Rightarrow> nat list \<Rightarrow> nat list \<times> nat list \<times> real" where
  "slide_window all_st good_st outstanding_st good =
     (let all1 = tl all_st @ [length outstanding_st];
          n_goodst = length (filter (\<lambda>gs. gs \<in> set outstanding_st) good);
          good1 = tl good_st @ [n_goodst];
          conf = (if sum_list all1 = 0 then 1
                  else sqrt (real (sum_list good1) / real (sum_list all1)))
      in (all1, good1, conf))"

definition Bucket_user_feedback ::
  "'r env \<Rightarrow> 'r shared \<Rightarrow> Bucket \<Rightarrow> nat list \<Rightarrow> nat list \<Rightarrow> nat list
     \<Rightarrow> (Bucket \<times> 'r shared) \<times> error option"
where
  "Bucket_user_feedback e sh b good neutral bad =
     (if length good = 0 \<and> length neutral = 0 \<and> length bad = 0
      then ((b, sh), None)
      else
        let (b1, good1, neutral1, bad1) =
              (case oracle_conf (config e) of
                 Al _ \<Rightarrow>
                   (let al_resp_in_good_suggs =
                          filter (\<lambda>gs. gs \<in> set (outstanding_al_queries b)) good;
                        al_resp_in_bad_suggs =
                          filter (\<lambda>bs. bs \<in> set (outstanding_al_queries b)) bad
                    in (b\<lparr>negatives := negatives b @ al_resp_in_bad_suggs,
                          outstanding_al_queries := []\<rparr>,
                        del_each good al_resp_in_good_suggs,
                        neutral @ al_resp_in_good_suggs,
                        del_each bad al_resp_in_bad_suggs))
               | Rf \<Rightarrow> (b, good, neutral, bad));
            b2 = b1\<lparr>images := images b1 @ good1,
                    n_good_suggs := n_good_suggs b1 + length good1,
                    n_judged_suggs := n_judged_suggs b1 + (length good1 + length bad1)\<rparr>;
            b3 = (case expsearch (config e) of
                    None \<Rightarrow> b2
                  | Some _ \<Rightarrow>
                      (let (all_svm, good_svm, conf_svm) =
                             slide_window (fst (all_suggs b2)) (fst (good_suggs b2))
                               (fst (b_outstanding_suggs b2)) good1;
                           (all_index, good_index, conf_index) =
                             slide_window (snd (all_suggs b2)) (snd (good_suggs b2))
                               (snd (b_outstanding_suggs b2)) good1
                       in b2\<lparr>all_suggs := (all_svm, all_index),
                             good_suggs := (good_svm, good_index),
                             model_confidences := (conf_svm, conf_index)\<rparr>));
            b4 = b3\<lparr>precision :=
                      (if n_judged_suggs b3 = 0 then 1
                       else real (n_good_suggs b3) / real (n_judged_suggs b3))\<rparr>;
            b5 = b4\<lparr>images := images b4 @ neutral1,
                    negatives := negatives b4 @ bad1,
                    active_suggs := None\<rparr>
        in train e sh b5)"

subsection \<open>Removing images\<close>

text \<open>\<^verbatim>\<open>xs.index(x)\<close> for an element of \<open>xs\<close>, and \<^verbatim>\<open>del xs[i]\<close>, which raises out of range.\<close>

definition index_of :: "nat \<Rightarrow> nat list \<Rightarrow> nat" where
  "index_of x xs = length (takeWhile (\<lambda>y. y \<noteq> x) xs)"

definition del_at :: "nat \<Rightarrow> 'a list \<Rightarrow> 'a list option" where
  "del_at i xs = (if i < length xs then Some (take i xs @ drop (Suc i) xs) else None)"

text \<open>
  The loop of \<^verbatim>\<open>remove_images\<close>. Each \<^verbatim>\<open>del\<close> takes effect at once, so an image that is
  found nowhere, or a list shorter than its parallel list, raises with the earlier
  deletions in place.
\<close>

fun remove_images_loop :: "Bucket \<Rightarrow> nat list \<Rightarrow> Bucket \<times> error option" where
  "remove_images_loop b [] = (b, None)"
| "remove_images_loop b (img # imgs) =
     (if img \<in> set (images b) then
        (let i = index_of img (images b);
             b1 = b\<lparr>images := remove1 img (images b)\<rparr>
         in case del_at i (img_confidences b1) of
              None \<Rightarrow> (b1, Some IndexError)
            | Some cs \<Rightarrow>
                (let b2 = b1\<lparr>img_confidences := cs\<rparr> in
                 case del_at i (img_confidence_colors b2) of
                   None \<Rightarrow> (b2, Some IndexError)
                 | Some cols \<Rightarrow> remove_images_loop (b2\<lparr>img_confidence_colors := cols\<rparr>) imgs))
      else if img \<in> set (outstanding_ff b) then
        (let i = index_of img (outstanding_ff b);
             b1 = b\<lparr>bad_ff := bad_ff b @ [img], outstanding_ff := remove1 img (outstanding_ff b)\<rparr>
         in case del_at i (outstanding_ff_conf b1) of
              None \<Rightarrow> (b1, Some IndexError)
            | Some cs \<Rightarrow>
                (let b2 = b1\<lparr>outstanding_ff_conf := cs\<rparr> in
                 case del_at i (outstanding_ff_conf_colors b2) of
                   None \<Rightarrow> (b2, Some IndexError)
                 | Some cols \<Rightarrow>
                     remove_images_loop (b2\<lparr>outstanding_ff_conf_colors := cols\<rparr>) imgs))
      else (b, Some (ValueError NotInBucket)))"

definition remove_images ::
  "'r env \<Rightarrow> 'r shared \<Rightarrow> Bucket \<Rightarrow> nat list \<Rightarrow> (Bucket \<times> 'r shared) \<times> error option" where
  "remove_images e sh b images_to_remove =
     (case remove_images_loop b images_to_remove of
        (b', Some err) \<Rightarrow> ((b', sh), Some err)
      | (b', None) \<Rightarrow> train e sh b')"

subsection \<open>Ranking, suggestions and fast-forward\<close>

datatype top_definition = HighestScore | LowestScore

text \<open>
  \<^verbatim>\<open>_top_images\<close>: the scores of the whole collection, with the seen images forced to the
  end of the ranking. \<^verbatim>\<open>if n_top:\<close> is false for \<^verbatim>\<open>None\<close> and for 0, and then the whole
  ranking is returned. The result is the ranking with its scores.
\<close>

definition top_images ::
  "'r env \<Rightarrow> SeenImages \<Rightarrow> (nat \<Rightarrow> real) \<Rightarrow> top_definition \<Rightarrow> nat option
     \<Rightarrow> error + (nat list \<times> fl list)"
where
  "top_images e s model top_def n_top =
     (if \<not> fBall (seen s) (\<lambda>i. i < dataset_n e) then Inl IndexError
      else
        let scores = map (\<lambda>i. if i |\<in>| seen s
                               then (case top_def of HighestScore \<Rightarrow> MInf | LowestScore \<Rightarrow> PInf)
                               else Fin (model i))
                       [0..<dataset_n e];
            top_img_ranking =
              np_argsort (map (case top_def of HighestScore \<Rightarrow> fl_uminus | LowestScore \<Rightarrow> (\<lambda>x. x))
                            scores);
            top_ranking = (case n_top of
                     None \<Rightarrow> top_img_ranking
                   | Some k \<Rightarrow> if k = 0 then top_img_ranking else take k top_img_ranking)
        in Inr (top_ranking, map (\<lambda>i. scores ! i) top_ranking))"

text \<open>\<^verbatim>\<open>_svm_scores\<close>: the look-up of the features raises for an image outside the collection.\<close>

definition svm_scores :: "'r env \<Rightarrow> (nat \<Rightarrow> real) \<Rightarrow> nat list \<Rightarrow> error + real list" where
  "svm_scores e model imgs =
     (if list_all (\<lambda>i. i < dataset_n e) imgs then Inr (map model imgs) else Inl IndexError)"

fun fl_abs :: "fl \<Rightarrow> fl" where
  "fl_abs (Fin x) = Fin \<bar>x\<bar>"
| "fl_abs MInf = PInf"
| "fl_abs x = x"

text \<open>\<^verbatim>\<open>np.delete(xs, idx)\<close>: \<open>xs\<close> without the positions \<open>idx\<close>.\<close>

definition np_delete :: "nat list \<Rightarrow> nat list \<Rightarrow> nat list" where
  "np_delete xs idx = map (\<lambda>i. xs ! i) (filter (\<lambda>i. i \<notin> set idx) [0..<length xs])"

text \<open>
  The active-learning part of \<^verbatim>\<open>suggest\<close>: some of the requested suggestions become
  queries, the images with the smallest absolute score. The result is the queries, the
  remaining ranking and the remaining number of suggestions.
\<close>

definition al_split ::
  "'r env \<Rightarrow> 'r \<Rightarrow> nat list \<Rightarrow> fl list \<Rightarrow> nat \<Rightarrow> (nat list \<times> nat list \<times> nat) \<times> 'r" where
  "al_split e r all_images_svm_ranked all_images_svm_scores n_suggs =
     (case oracle_conf (config e) of
        Rf \<Rightarrow> (([], all_images_svm_ranked, n_suggs), r)
      | Al al_ratio \<Rightarrow>
          (case count_below e r n_suggs al_ratio of
             (n_al_queries, r') \<Rightarrow>
               (let al_queries_idx =
                      take n_al_queries (np_argsort (map fl_abs all_images_svm_scores));
                    al_queries = map (\<lambda>i. all_images_svm_ranked ! i) al_queries_idx
                in ((al_queries, np_delete all_images_svm_ranked al_queries_idx,
                     n_suggs - n_al_queries), r'))))"

text \<open>
  The exploration-search part of \<^verbatim>\<open>suggest\<close>: a random split of the suggestions over the
  SVM ranking, the nearest neighbours and the randomized explorer. The result is the
  concatenated suggestions and the new \<^verbatim>\<open>self.outstanding_suggs\<close>.
\<close>

definition expsearch_split ::
  "'r env \<Rightarrow> 'r shared \<Rightarrow> Bucket \<Rightarrow> nat list \<Rightarrow> nat list \<Rightarrow> nat
     \<Rightarrow> (error + (nat list \<times> (nat list \<times> nat list))) \<times> 'r shared"
where
  "expsearch_split e sh b al_queries suggs_images n_suggs =
     (case np_random_rand e (rng sh) of
        (roulette, r1) \<Rightarrow>
          (let svm_confidence = fst (model_confidences b);
               index_confidence = snd (model_confidences b);
               svm_threshold = svm_confidence;
               index_threshold = svm_threshold + index_confidence * (1 - svm_confidence);
               n_svm_suggs = length (filter (\<lambda>i. roulette i \<le> svm_threshold) [0..<n_suggs]);
               n_index_suggs =
                 length (filter (\<lambda>i. svm_threshold < roulette i \<and> roulette i \<le> index_threshold)
                           [0..<n_suggs]);
               n_randexp_suggs = length (filter (\<lambda>i. index_threshold < roulette i) [0..<n_suggs]);
               suggs_images1 = take n_svm_suggs suggs_images;
               prev_suggs = al_queries @ suggs_images1
           in case nn_suggs e r1 (images b) (img_svm_scores b) (seen (seen_images sh))
                     n_index_suggs prev_suggs of
                (Inl err, r2) \<Rightarrow> (Inl err, sh\<lparr>rng := r2\<rparr>)
              | (Inr index_suggs, r2) \<Rightarrow>
                  (let n_randexp_suggs1 =
                         (if length index_suggs < n_index_suggs
                          then n_randexp_suggs + (n_index_suggs - length index_suggs)
                          else n_randexp_suggs);
                       suggs_images2 = suggs_images1 @ index_suggs;
                       prev_suggs1 = prev_suggs @ index_suggs
                   in case RandomizedExplorer_suggest_raw e (sh\<lparr>rng := r2\<rparr>) n_randexp_suggs1 True
                             prev_suggs1 of
                        (Inl err, sh1) \<Rightarrow> (Inl err, sh1)
                      | (Inr randexp_suggs, sh1) \<Rightarrow>
                          (let suggs_images3 = suggs_images2 @ randexp_suggs
                           in (Inr (suggs_images3, (take n_svm_suggs suggs_images3, index_suggs)),
                               sh1)))))"

text \<open>
  \<^verbatim>\<open>Bucket.suggest\<close>. An untrained bucket raises \<^verbatim>\<open>BucketNotActiveError\<close>. The entries
  are built by \<^verbatim>\<open>ImageList.image_list\<close> with the bucket's own ID, and with the flags
  \<^verbatim>\<open>[False]*n_suggs + [True]*len(al_queries)\<close>, so a pool that cannot fill the request makes
  the list lengths differ.
\<close>

definition Bucket_suggest ::
  "'r env \<Rightarrow> 'r shared \<Rightarrow> Bucket \<Rightarrow> nat \<Rightarrow> (error + sugg list) \<times> Bucket \<times> 'r shared" where
  "Bucket_suggest e sh b n_suggs =
     (case svm_model b of
        None \<Rightarrow> (Inl BucketNotActiveError, b, sh)
      | Some model \<Rightarrow>
          (case top_images e (seen_images sh) model HighestScore None of
             Inl err \<Rightarrow> (Inl err, b, sh)
           | Inr (all_images_svm_ranked, all_images_svm_scores) \<Rightarrow>
               (case al_split e (rng sh) all_images_svm_ranked all_images_svm_scores n_suggs of
                  ((al_queries, ranked1, n_suggs1), r1) \<Rightarrow>
                    (let b1 = (case oracle_conf (config e) of
                                 Rf \<Rightarrow> b
                               | Al _ \<Rightarrow> b\<lparr>outstanding_al_queries := al_queries\<rparr>);
                         sh1 = sh\<lparr>rng := r1\<rparr>;
                         suggs_images = take (n_sugg_candidates (config e)) ranked1;
                         (split, sh2) =
                           (case expsearch (config e) of
                              None \<Rightarrow> (Inr (suggs_images, b_outstanding_suggs b1), sh1)
                            | Some _ \<Rightarrow> expsearch_split e sh1 b1 al_queries suggs_images n_suggs1)
                     in case split of
                          Inl err \<Rightarrow> (Inl err, b1, sh2)
                        | Inr (suggs_images1, outstanding) \<Rightarrow>
                            (let b2 = b1\<lparr>b_outstanding_suggs := outstanding\<rparr>;
                                 suggs_images2 = take n_suggs1 suggs_images1 @ al_queries
                             in case svm_scores e model suggs_images2 of
                                  Inl err \<Rightarrow> (Inl err, b2, sh2)
                                | Inr suggs_scores \<Rightarrow>
                                    (let suggs_confidences = confidence b2 suggs_scores in
                                     case confidence_colors suggs_confidences of
                                       Inl err \<Rightarrow> (Inl err, b2, sh2)
                                     | Inr suggs_conf_colors \<Rightarrow>
                                         (let suggs_is_al_query =
                                                replicate n_suggs1 False
                                                  @ map (\<lambda>_. True) al_queries
                                          in case image_list (bucket_id b2) suggs_images2
                                                    (map Some suggs_confidences)
                                                    (map Some suggs_conf_colors)
                                                    None (Some suggs_is_al_query) of
                                               Inl err \<Rightarrow> (Inl err, b2, sh2)
                                             | Inr l \<Rightarrow>
                                                 (Inr l, b2\<lparr>active_suggs := Some l\<rparr>, sh2))))))))"

definition Bucket_fast_forward ::
  "'r env \<Rightarrow> 'r shared \<Rightarrow> Bucket \<Rightarrow> nat \<Rightarrow> Bucket \<times> error option" where
  "Bucket_fast_forward e sh b n_ff =
     (case svm_model b of
        None \<Rightarrow> (b, Some BucketNotActiveError)
      | Some model \<Rightarrow>
          (case top_images e (seen_images sh) model HighestScore (Some n_ff) of
             Inl err \<Rightarrow> (b, Some err)
           | Inr (ranking, _) \<Rightarrow>
               (let b1 = b\<lparr>outstanding_ff := ranking\<rparr> in
                case svm_scores e model (outstanding_ff b1) of
                  Inl err \<Rightarrow> (b1, Some err)
                | Inr outstanding_ff_scores \<Rightarrow>
                    (let b2 = b1\<lparr>outstanding_ff_conf := confidence b1 outstanding_ff_scores\<rparr> in
                     case confidence_colors (outstanding_ff_conf b2) of
                       Inl err \<Rightarrow> (b2, Some err)
                     | Inr cols \<Rightarrow>
                         (b2\<lparr>outstanding_ff_conf_colors := cols, bad_ff := []\<rparr>, None)))))"

definition Bucket_ff_commit ::
  "'r env \<Rightarrow> 'r shared \<Rightarrow> Bucket \<Rightarrow> (Bucket \<times> 'r shared) \<times> error option" where
  "Bucket_ff_commit e sh b =
     (case update (seen_images sh) (outstanding_ff b) of
        (s1, Some err) \<Rightarrow> ((b, sh\<lparr>seen_images := s1\<rparr>), Some err)
      | (s1, None) \<Rightarrow>
          (case update s1 (bad_ff b) of
             (s2, Some err) \<Rightarrow> ((b, sh\<lparr>seen_images := s2\<rparr>), Some err)
           | (s2, None) \<Rightarrow>
               (case Bucket_user_feedback e (sh\<lparr>seen_images := s2\<rparr>) b
                       (outstanding_ff b) [] (bad_ff b) of
                  ((b1, sh1), Some err) \<Rightarrow> ((b1, sh1), Some err)
                | ((b1, sh1), None) \<Rightarrow>
                    ((b1\<lparr>outstanding_ff := [], outstanding_ff_conf := [],
                         outstanding_ff_conf_colors := [], bad_ff := []\<rparr>, sh1), None))))"

definition discard_candidates ::
  "'r env \<Rightarrow> SeenImages \<Rightarrow> Bucket \<Rightarrow> nat \<Rightarrow> error + nat list" where
  "discard_candidates e s b n_candidates =
     (case svm_model b of
        None \<Rightarrow> Inl AttributeError
      | Some model \<Rightarrow>
          (case top_images e s model LowestScore (Some n_candidates) of
             Inl err \<Rightarrow> Inl err
           | Inr (ranking, _) \<Rightarrow> Inr ranking))"

section \<open>AIModel\<close>

text \<open>
  \<^verbatim>\<open>self.buckets\<close> is a dictionary, enumerated in the order in which the keys were
  inserted: an association list. \<^verbatim>\<open>self.outstanding_suggs\<close> is only looked up by key: a
  map. The shared objects are in \<open>shared\<close>.
\<close>

record 'r AIModel =
  shared :: "'r shared"
  buckets :: "(int \<times> Bucket) list"
  next_bucket_id :: int
  outstanding_suggs :: "nat \<rightharpoonup> sugg"

definition INIT_BUCKET_ID :: int where "INIT_BUCKET_ID = 1"
definition N_MAX_BUCKETS :: nat where "N_MAX_BUCKETS = 1000"
definition N_MAX_ACTIVE_BUCKETS :: nat where "N_MAX_ACTIVE_BUCKETS = 7"
definition RANDOM_EXPLORE_REQUEST :: int where "RANDOM_EXPLORE_REQUEST = - 1"
definition TRANSFER_MODES :: "string list" where "TRANSFER_MODES = [''move'', ''copy'']"

definition active_buckets :: "'r AIModel \<Rightarrow> int list" where
  "active_buckets m = map fst (filter (\<lambda>(b, bk). active bk) (buckets m))"

text \<open>The truth value of \<^verbatim>\<open>self.buckets[b].svm_model\<close>: a model is true, \<^verbatim>\<open>None\<close> false.\<close>

definition is_trained :: "Bucket \<Rightarrow> bool" where
  "is_trained bk = (case svm_model bk of None \<Rightarrow> False | Some _ \<Rightarrow> True)"

definition trained_buckets :: "'r AIModel \<Rightarrow> int list" where
  "trained_buckets m = map fst (filter (\<lambda>(b, bk). is_trained bk) (buckets m))"

subsection \<open>Bucket management\<close>

text \<open>The name of a new bucket, \<^verbatim>\<open>"Bucket %s" % bucket_id\<close>, is shortened to its first word.\<close>

definition create_bucket :: "'r env \<Rightarrow> 'r AIModel \<Rightarrow> 'r AIModel \<times> error option" where
  "create_bucket e m =
     (if N_MAX_BUCKETS \<le> length (buckets m) then (m, Some (ValueError TooManyBuckets))
      else
        let bucket_active = \<not> N_MAX_ACTIVE_BUCKETS \<le> length (active_buckets m);
            ident = next_bucket_id m;
            bk = Bucket_init e ident ''Bucket'' bucket_active (length (buckets m))
        in (m\<lparr>buckets := AList.update ident bk (buckets m),
               next_bucket_id := next_bucket_id m + 1\<rparr>, None))"

definition AIModel_init :: "'r env \<Rightarrow> 'r \<Rightarrow> 'r AIModel" where
  "AIModel_init e r =
     fst (create_bucket e
       \<lparr>shared = \<lparr>seen_images = SeenImages_init (dataset_n e),
                  discard_pile = \<lparr>pile = [], dp_outstanding_ff = []\<rparr>,
                  randomized_explorer = \<lparr>re_outstanding_suggs = []\<rparr>,
                  rng = r\<rparr>,
        buckets = [], next_bucket_id = INIT_BUCKET_ID, outstanding_suggs = Map.empty\<rparr>)"

definition swap_buckets :: "'r AIModel \<Rightarrow> int \<Rightarrow> int \<Rightarrow> 'r AIModel \<times> error option" where
  "swap_buckets m bucket1_id bucket2_id =
     (case (map_of (buckets m) bucket1_id, map_of (buckets m) bucket2_id) of
        (Some bucket1, Some bucket2) \<Rightarrow>
          (m\<lparr>buckets :=
                AList.update bucket2_id (bucket2\<lparr>ordering := ordering bucket1\<rparr>)
                  (AList.update bucket1_id (bucket1\<lparr>ordering := ordering bucket2\<rparr>) (buckets m))\<rparr>,
           None)
      | _ \<Rightarrow> (m, Some (ValueError InvalidBucketKey)))"

subsection \<open>Fast-forward\<close>

text \<open>
  \<^verbatim>\<open>np.array([n_ff//n_trained_buckets for b in trained_buckets])\<close> followed by
  \<^verbatim>\<open>n_discards_per_bucket[:n_ff % n_trained_buckets] += 1\<close>.
\<close>

definition n_discards_per_bucket :: "nat \<Rightarrow> nat \<Rightarrow> nat list" where
  "n_discards_per_bucket n_ff n_trained_buckets =
     (let per_bucket = replicate n_trained_buckets (n_ff div n_trained_buckets);
          k = n_ff mod n_trained_buckets
      in map (\<lambda>x. x + 1) (take k per_bucket) @ drop k per_bucket)"

text \<open>
  The calls \<^verbatim>\<open>self.buckets[trained_buckets[i]].discard_candidates(n_discards_per_bucket[i])\<close>
  the loop of \<^verbatim>\<open>_ff_discard\<close> makes, in its order: the bucket and the number requested.
\<close>

definition ff_discard_requests :: "'r AIModel \<Rightarrow> nat \<Rightarrow> (int \<times> nat) list" where
  "ff_discard_requests m n_ff =
     zip (trained_buckets m) (n_discards_per_bucket n_ff (length (trained_buckets m)))"

fun ff_discard_loop ::
  "'r env \<Rightarrow> 'r AIModel \<Rightarrow> (int \<times> nat) list \<Rightarrow> nat list \<Rightarrow> error + nat list" where
  "ff_discard_loop e m [] ff = Inr ff"
| "ff_discard_loop e m ((b, k) # reqs) ff =
     (case map_of (buckets m) b of
        None \<Rightarrow> Inl KeyError
      | Some bk \<Rightarrow>
          (case discard_candidates e (seen_images (shared m)) bk k of
             Inl err \<Rightarrow> Inl err
           | Inr cands \<Rightarrow> ff_discard_loop e m reqs (ff @ cands)))"

definition ff_discard :: "'r env \<Rightarrow> 'r AIModel \<Rightarrow> nat \<Rightarrow> 'r AIModel \<times> error option" where
  "ff_discard e m n_ff =
     (let n_trained_buckets = length (trained_buckets m) in
      if n_trained_buckets = 0 then (m, Some (ValueError NoTrainedBuckets))
      else case ff_discard_loop e m (ff_discard_requests m n_ff) [] of
             Inl err \<Rightarrow> (m, Some err)
           | Inr ff \<Rightarrow>
               (m\<lparr>shared := (shared m)\<lparr>discard_pile :=
                     DiscardPile_fast_forward (discard_pile (shared m)) ff\<rparr>\<rparr>, None))"

definition AIModel_fast_forward ::
  "'r env \<Rightarrow> 'r AIModel \<Rightarrow> int \<Rightarrow> int \<Rightarrow> 'r AIModel \<times> error option" where
  "AIModel_fast_forward e m bucket n_ff =
     (if n_ff \<le> 0 then (m, Some (ValueError InvalidFastForward))
      else if bucket = BUCKET_ID then ff_discard e m (nat n_ff)
      else case map_of (buckets m) bucket of
             None \<Rightarrow> (m, Some (ValueError InvalidBucketKey))
           | Some bk \<Rightarrow>
               (case Bucket_fast_forward e (shared m) bk (nat n_ff) of
                  (bk', Some BucketNotActiveError) \<Rightarrow>
                    (m\<lparr>buckets := AList.update bucket bk' (buckets m)\<rparr>,
                     Some (ValueError BucketNotActive))
                | (bk', err) \<Rightarrow> (m\<lparr>buckets := AList.update bucket bk' (buckets m)\<rparr>, err)))"

subsection \<open>Feedback\<close>

text \<open>
  \<^verbatim>\<open>bucketwise_feedback\<close>: per bucket, the lists \<^verbatim>\<open>"good"\<close>, \<^verbatim>\<open>"neutral"\<close> and
  \<^verbatim>\<open>"bad"\<close>. An append under a key that is no bucket raises \<^verbatim>\<open>KeyError\<close>.
\<close>

datatype bin = Good | Neutral | Bad

type_synonym bucketwise = "(int \<times> (nat list \<times> nat list \<times> nat list)) list"

definition bin_append :: "bucketwise \<Rightarrow> int \<Rightarrow> bin \<Rightarrow> nat \<Rightarrow> error + bucketwise" where
  "bin_append bw b which img =
     (case map_of bw b of
        None \<Rightarrow> Inl KeyError
      | Some (g, nt, bd) \<Rightarrow>
          Inr (AList.update b
                 (case which of
                    Good \<Rightarrow> (g @ [img], nt, bd)
                  | Neutral \<Rightarrow> (g, nt @ [img], bd)
                  | Bad \<Rightarrow> (g, nt, bd @ [img]))
                 bw))"

text \<open>
  The bucket an image was suggested for: \<^verbatim>\<open>self.outstanding_suggs[image]["bucket"]\<close>, or
  \<^verbatim>\<open>None\<close>. The tests \<^verbatim>\<open>if suggested_bucket:\<close> and \<^verbatim>\<open>elif not suggested_bucket:\<close> take
  \<^verbatim>\<open>None\<close> and 0 for false; 0 is the bucket recorded for the randomized explorer's
  suggestions.
\<close>

definition suggested_bucket :: "(nat \<rightharpoonup> sugg) \<Rightarrow> nat \<Rightarrow> int option" where
  "suggested_bucket os img = (case os img of None \<Rightarrow> None | Some sg \<Rightarrow> Some (s_bucket sg))"

definition truthy :: "int option \<Rightarrow> bool" where
  "truthy x = (case x of None \<Rightarrow> False | Some v \<Rightarrow> v \<noteq> 0)"

text \<open>
  The loop over the feedback, on \<^verbatim>\<open>bucketwise_feedback\<close>, \<^verbatim>\<open>discarded_img\<close> and
  \<^verbatim>\<open>seen_images\<close>. The last \<^verbatim>\<open>else\<close> of the source cannot be reached: the two tests
  before it are an equality and its negation.
\<close>

fun classify ::
  "(nat \<rightharpoonup> sugg) \<Rightarrow> (nat \<times> int option) list \<Rightarrow> bucketwise \<times> nat list \<times> nat list
     \<Rightarrow> error + (bucketwise \<times> nat list \<times> nat list)"
where
  "classify os [] st = Inr st"
| "classify os ((img, None) # fb) st = classify os fb st"
| "classify os ((img, Some assigned_bucket) # fb) (bw, discarded_img, seen_imgs) =
     (let sb = suggested_bucket os img in
      if assigned_bucket = BUCKET_ID then
        (if truthy sb then
           (case bin_append bw (the sb) Bad img of
              Inl err \<Rightarrow> Inl err
            | Inr bw1 \<Rightarrow> classify os fb (bw1, discarded_img @ [img], seen_imgs @ [img]))
         else classify os fb (bw, discarded_img @ [img], seen_imgs @ [img]))
      else if \<not> truthy sb then
        (case bin_append bw assigned_bucket Neutral img of
           Inl err \<Rightarrow> Inl err
         | Inr bw1 \<Rightarrow> classify os fb (bw1, discarded_img, seen_imgs @ [img]))
      else if assigned_bucket = the sb then
        (case bin_append bw (the sb) Good img of
           Inl err \<Rightarrow> Inl err
         | Inr bw1 \<Rightarrow> classify os fb (bw1, discarded_img, seen_imgs @ [img]))
      else
        (case bin_append bw assigned_bucket Neutral img of
           Inl err \<Rightarrow> Inl err
         | Inr bw1 \<Rightarrow>
             (case bin_append bw1 (the sb) Bad img of
                Inl err \<Rightarrow> Inl err
              | Inr bw2 \<Rightarrow> classify os fb (bw2, discarded_img, seen_imgs @ [img]))))"

text \<open>\<^verbatim>\<open>for b in bucketwise_feedback: self.buckets[b].user_feedback(...)\<close>.\<close>

fun feedback_loop ::
  "'r env \<Rightarrow> 'r shared \<Rightarrow> (int \<times> Bucket) list \<Rightarrow> bucketwise
     \<Rightarrow> ((int \<times> Bucket) list \<times> 'r shared) \<times> error option"
where
  "feedback_loop e sh bks [] = ((bks, sh), None)"
| "feedback_loop e sh bks ((b, (g, nt, bd)) # bw) =
     (case map_of bks b of
        None \<Rightarrow> ((bks, sh), Some KeyError)
      | Some bk \<Rightarrow>
          (case Bucket_user_feedback e sh bk g nt bd of
             ((bk', sh'), Some err) \<Rightarrow> ((AList.update b bk' bks, sh'), Some err)
           | ((bk', sh'), None) \<Rightarrow> feedback_loop e sh' (AList.update b bk' bks) bw))"

definition AIModel_user_feedback ::
  "'r env \<Rightarrow> 'r AIModel \<Rightarrow> (nat \<times> int option) list \<Rightarrow> 'r AIModel \<times> error option" where
  "AIModel_user_feedback e m user_feedback =
     (case classify (outstanding_suggs m) user_feedback
             (map (\<lambda>(b, _). (b, ([], [], []))) (buckets m), [], []) of
        Inl err \<Rightarrow> (m, Some err)
      | Inr (bucketwise_feedback, discarded_img, seen_imgs) \<Rightarrow>
          (case feedback_loop e (shared m) (buckets m) bucketwise_feedback of
             ((bks, sh), Some err) \<Rightarrow> (m\<lparr>buckets := bks, shared := sh\<rparr>, Some err)
           | ((bks, sh), None) \<Rightarrow>
               (let sh1 = sh\<lparr>discard_pile := discard_images (discard_pile sh) discarded_img\<rparr> in
                case update (seen_images sh1) seen_imgs of
                  (s', err) \<Rightarrow> (m\<lparr>buckets := bks, shared := sh1\<lparr>seen_images := s'\<rparr>\<rparr>, err))))"

subsection \<open>Suggestions\<close>

definition record_outstanding_suggs :: "sugg list \<Rightarrow> (nat \<rightharpoonup> sugg)" where
  "record_outstanding_suggs suggs = foldl (\<lambda>os img_info. os(s_image img_info \<mapsto> img_info)) Map.empty suggs"

text \<open>
  The \<^verbatim>\<open>try\<close> statement in the loop of \<^verbatim>\<open>suggest\<close>: the suggestions of the bucket, or
  the explorer's when the bucket is not trained. Only \<^verbatim>\<open>BucketNotActiveError\<close> is caught.
\<close>

definition suggest_try ::
  "'r env \<Rightarrow> 'r AIModel \<Rightarrow> bool \<Rightarrow> int \<Rightarrow> Bucket \<Rightarrow> nat \<Rightarrow> sugg list
     \<Rightarrow> (error + sugg list) \<times> 'r AIModel"
where
  "suggest_try e m refresh_rand_exp b bk n_req suggs =
     (case Bucket_suggest e (shared m) bk n_req of
        (Inr l, bk', sh') \<Rightarrow>
          (Inr (suggs @ l), m\<lparr>buckets := AList.update b bk' (buckets m), shared := sh'\<rparr>)
      | (Inl BucketNotActiveError, bk', sh') \<Rightarrow>
          (case RandomizedExplorer_suggest e sh' n_req refresh_rand_exp of
             (Inl err, sh'') \<Rightarrow>
               (Inl err, m\<lparr>buckets := AList.update b bk' (buckets m), shared := sh''\<rparr>)
           | (Inr l, sh'') \<Rightarrow>
               (Inr (suggs @ l), m\<lparr>buckets := AList.update b bk' (buckets m), shared := sh''\<rparr>))
      | (Inl err, bk', sh') \<Rightarrow>
          (Inl err, m\<lparr>buckets := AList.update b bk' (buckets m), shared := sh'\<rparr>))"

text \<open>
  The body of the loop of \<^verbatim>\<open>suggest\<close> over the ordered buckets, for the bucket \<open>b\<close>, on
  the model and the list \<^verbatim>\<open>suggs\<close>. The test for extra suggestions compares the request
  of the bucket with the length of the whole list.
\<close>

definition suggest_step ::
  "'r env \<Rightarrow> 'r AIModel \<Rightarrow> (int \<times> nat) list \<Rightarrow> bool \<Rightarrow> int \<Rightarrow> sugg list
     \<Rightarrow> (error + sugg list) \<times> 'r AIModel"
where
  "suggest_step e m sugg_request refresh_rand_exp b suggs =
     (case (map_of sugg_request b, map_of (buckets m) b) of
        (Some n_req, Some bk) \<Rightarrow>
          (if n_req = 0 then (Inr suggs, m)
           else
             (case suggest_try e m refresh_rand_exp b bk n_req suggs of
                (Inl err, m1) \<Rightarrow> (Inl err, m1)
              | (Inr suggs1, m1) \<Rightarrow>
                  (if length suggs1 < n_req then
                     (let n_extra_randexp = n_req - length suggs1 in
                      case RandomizedExplorer_suggest e (shared m1) n_extra_randexp
                             refresh_rand_exp of
                        (Inl err, sh2) \<Rightarrow> (Inl err, m1\<lparr>shared := sh2\<rparr>)
                      | (Inr l, sh2) \<Rightarrow> (Inr (suggs1 @ l), m1\<lparr>shared := sh2\<rparr>))
                   else (Inr suggs1, m1))))
      | _ \<Rightarrow> (Inl KeyError, m))"

text \<open>The loop: an error ends it.\<close>

fun suggest_loop ::
  "'r env \<Rightarrow> 'r AIModel \<Rightarrow> (int \<times> nat) list \<Rightarrow> bool \<Rightarrow> int list \<Rightarrow> sugg list
     \<Rightarrow> (error + sugg list) \<times> 'r AIModel"
where
  "suggest_loop e m sugg_request refresh_rand_exp [] suggs = (Inr suggs, m)"
| "suggest_loop e m sugg_request refresh_rand_exp (b # bs) suggs =
     (case suggest_step e m sugg_request refresh_rand_exp b suggs of
        (Inl err, m1) \<Rightarrow> (Inl err, m1)
      | (Inr suggs1, m1) \<Rightarrow> suggest_loop e m1 sugg_request refresh_rand_exp bs suggs1)"

text \<open>
  \<^verbatim>\<open>[(b, self.buckets[b].ordering) for b in sugg_request]\<close>, which raises \<^verbatim>\<open>KeyError\<close>
  at a key that is no bucket.
\<close>

fun bucket_orderings :: "(int \<times> Bucket) list \<Rightarrow> int list \<Rightarrow> (int \<times> nat) list option" where
  "bucket_orderings bks [] = Some []"
| "bucket_orderings bks (b # bs) =
     (case map_of bks b of
        None \<Rightarrow> None
      | Some bk \<Rightarrow>
          (case bucket_orderings bks bs of None \<Rightarrow> None | Some r \<Rightarrow> Some ((b, ordering bk) # r)))"

text \<open>
  The part of \<^verbatim>\<open>AIModel.suggest\<close> after the random explore request has been dealt with:
  the buckets of the request are put in display order (\<^verbatim>\<open>list.sort\<close> is stable, as
  \<open>sort_key\<close> is), the loop collects their suggestions, the random explore suggestions
  are appended, and the whole list is recorded. \<open>sh1\<close> are the shared objects and
  \<open>sugg_request\<close> is the request at this point.
\<close>

definition suggest_buckets ::
  "'r env \<Rightarrow> 'r AIModel \<Rightarrow> 'r shared \<Rightarrow> (int \<times> nat) list \<Rightarrow> bool \<Rightarrow> sugg list
     \<Rightarrow> (error + sugg list) \<times> 'r AIModel \<times> (int \<times> nat) list"
where
  "suggest_buckets e m sh1 sugg_request refresh_rand_exp suggs_randexp =
     (case bucket_orderings (buckets m) (map fst sugg_request) of
        None \<Rightarrow> (Inl (ValueError InvalidBucketKey), m\<lparr>shared := sh1\<rparr>, sugg_request)
      | Some orderings \<Rightarrow>
          (case suggest_loop e (m\<lparr>shared := sh1\<rparr>) sugg_request refresh_rand_exp
                  (map fst (sort_key snd orderings)) [] of
             (Inl err, m1) \<Rightarrow> (Inl err, m1, sugg_request)
           | (Inr suggs, m1) \<Rightarrow>
               (Inr (suggs @ suggs_randexp),
                m1\<lparr>outstanding_suggs := record_outstanding_suggs (suggs @ suggs_randexp)\<rparr>,
                sugg_request)))"

text \<open>
  \<^verbatim>\<open>AIModel.suggest\<close>. The request is the caller's dictionary, which the call changes in
  place: the result holds the suggestions or the error, the model, and the request as the
  call leaves it. The random explore request is served first, and its key is deleted once
  the explorer has returned.
\<close>

definition AIModel_suggest ::
  "'r env \<Rightarrow> 'r AIModel \<Rightarrow> (int \<times> nat) list \<Rightarrow> bool
     \<Rightarrow> (error + sugg list) \<times> 'r AIModel \<times> (int \<times> nat) list"
where
  "AIModel_suggest e m sugg_request refresh_rand_exp =
     (case map_of sugg_request RANDOM_EXPLORE_REQUEST of
        None \<Rightarrow> suggest_buckets e m (shared m) sugg_request refresh_rand_exp []
      | Some n_suggs_randexp \<Rightarrow>
          (case RandomizedExplorer_suggest e (shared m) n_suggs_randexp refresh_rand_exp of
             (Inl err, sh1) \<Rightarrow> (Inl err, m\<lparr>shared := sh1\<rparr>, sugg_request)
           | (Inr suggs_randexp, sh1) \<Rightarrow>
               suggest_buckets e m sh1 (AList.delete RANDOM_EXPLORE_REQUEST sugg_request)
                 refresh_rand_exp suggs_randexp))"

subsection \<open>Transfers\<close>

text \<open>
  \<^verbatim>\<open>transfer_images\<close>. A \<^verbatim>\<open>KeyError\<close> of a bucket look-up is raised again as a
  \<^verbatim>\<open>ValueError\<close>; every other error passes through. The first part is the removal from the
  source in mode \<^verbatim>\<open>"move"\<close>, the second the insertion into the destination.
\<close>

definition transfer_src ::
  "'r env \<Rightarrow> 'r AIModel \<Rightarrow> nat list \<Rightarrow> int \<Rightarrow> 'r AIModel \<times> error option" where
  "transfer_src e m imgs bucket_src =
     (if bucket_src = BUCKET_ID then
        (case restore_images (shared m) imgs of (sh', err) \<Rightarrow> (m\<lparr>shared := sh'\<rparr>, err))
      else
        (case map_of (buckets m) bucket_src of
           None \<Rightarrow> (m, Some (ValueError InvalidBucketKey))
         | Some bk \<Rightarrow>
             (case remove_images e (shared m) bk imgs of
                ((bk', sh'), err) \<Rightarrow>
                  (m\<lparr>buckets := AList.update bucket_src bk' (buckets m), shared := sh'\<rparr>, err))))"

definition transfer_dst ::
  "'r env \<Rightarrow> 'r AIModel \<Rightarrow> nat list \<Rightarrow> int \<Rightarrow> 'r AIModel \<times> error option" where
  "transfer_dst e m imgs bucket_dst =
     (if bucket_dst = BUCKET_ID then
        (m\<lparr>shared := (shared m)\<lparr>discard_pile := discard_images (discard_pile (shared m)) imgs\<rparr>\<rparr>,
         None)
      else
        (case map_of (buckets m) bucket_dst of
           None \<Rightarrow> (m, Some (ValueError InvalidBucketKey))
         | Some bk \<Rightarrow>
             (case Bucket_user_feedback e (shared m) bk [] imgs [] of
                ((bk', sh'), err) \<Rightarrow>
                  (m\<lparr>buckets := AList.update bucket_dst bk' (buckets m), shared := sh'\<rparr>, err))))"

definition transfer_images ::
  "'r env \<Rightarrow> 'r AIModel \<Rightarrow> nat list \<Rightarrow> int \<Rightarrow> int \<Rightarrow> string \<Rightarrow> 'r AIModel \<times> error option" where
  "transfer_images e m imgs bucket_src bucket_dst mode =
     (if mode \<notin> set TRANSFER_MODES then (m, Some (ValueError InvalidTransferMode))
      else if mode = ''copy'' \<and> (bucket_src = BUCKET_ID \<or> bucket_dst = BUCKET_ID)
      then (m, Some (ValueError CopyDiscardPile))
      else
        (case (if mode = ''move'' then transfer_src e m imgs bucket_src else (m, None)) of
           (m1, Some err) \<Rightarrow> (m1, Some err)
         | (m1, None) \<Rightarrow> transfer_dst e m1 imgs bucket_dst))"

section \<open>Properties of SeenImages\<close>

lemma seen_update: "seen (fst (update s xs)) = seen s |\<union>| fset_of_list xs"
  by (simp add: update_def Let_def)

lemma n_coll_update: "n_coll (fst (update s xs)) = n_coll s"
  by (simp add: update_def Let_def)

text \<open>The other operations that touch the seen set go through \<open>update\<close>, and only add to it.\<close>

lemma restore_images_seen_grows:
  "seen (seen_images sh) |\<subseteq>| seen (seen_images (fst (restore_images sh imgs)))"
proof (induction imgs arbitrary: sh)
  case Nil
  then show ?case by simp
next
  case (Cons img imgs)
  show ?case
  proof (cases "img \<in> set (pile (discard_pile sh))")
    case True
    with Cons.IH[of "sh\<lparr>discard_pile := (discard_pile sh)\<lparr>pile := remove1 img (pile (discard_pile sh))\<rparr>\<rparr>"]
    show ?thesis by (simp add: Let_def)
  next
    case False
    show ?thesis
    proof (cases "img \<in> set (dp_outstanding_ff (discard_pile sh))")
      case nf: False
      with False show ?thesis by (simp add: Let_def)
    next
      case True
      obtain s' err where u: "update (seen_images sh) [img] = (s', err)" by (metis prod.exhaust)
      then have g: "seen (seen_images sh) |\<subseteq>| seen s'"
        using seen_update[of "seen_images sh" "[img]"] by auto
      show ?thesis
      proof (cases err)
        case None
        with Cons.IH[of "sh\<lparr>seen_images := s', discard_pile :=
            (discard_pile sh)\<lparr>dp_outstanding_ff := remove1 img (dp_outstanding_ff (discard_pile sh))\<rparr>\<rparr>"]
          False True u g
        show ?thesis by (auto simp: Let_def)
      next
        case (Some a)
        with False True u g show ?thesis by (simp add: Let_def)
      qed
    qed
  qed
qed

lemma DiscardPile_ff_commit_seen_grows:
  "seen (seen_images sh) |\<subseteq>| seen (seen_images (fst (DiscardPile_ff_commit sh)))"
  by (auto simp: DiscardPile_ff_commit_def Let_def update_def split: prod.splits option.splits)



section \<open>Properties of CollectionIndex\<close>

lemma map2_same: "map2 f (map g xs) (map h xs) = map (\<lambda>x. f (g x) (h x)) xs"
  by (induction xs) auto

lemma mat_add_maps:
  "mat_add (map (\<lambda>i. map (f i) ys) xs) (map (\<lambda>i. map (g i) ys) xs)
     = map (\<lambda>i. map (\<lambda>j. f i j + g i j) ys) xs"
  by (simp add: mat_add_def map2_same)

lemma index_codes_ok:
  "list_all (\<lambda>i. i < length idx \<and> s < length (idx ! i)) img \<Longrightarrow>
   index_codes idx img s = Inr (map (\<lambda>i. idx ! i ! s) img)"
  by (simp add: index_codes_def)

lemma index_ok_row:
  assumes "index_ok ci" "i < length (index ci)" "s < n_submat ci"
  shows "s < length (index ci ! i)"
    and "index ci ! i ! s < length (distance_matrix ci ! s)"
    and "\<forall>r \<in> set (distance_matrix ci ! s). length r = length (distance_matrix ci ! s)"
proof -
  from assms(1,2) have row: "length (index ci ! i) = n_submat ci \<and>
        list_all (\<lambda>s. (index ci ! i) ! s < length (distance_matrix ci ! s) \<and>
           list_all (\<lambda>r. length r = length (distance_matrix ci ! s)) (distance_matrix ci ! s))
          [0..<n_submat ci]"
    by (simp add: index_ok_def list_all_length)
  then show "s < length (index ci ! i)" using assms(3) by simp
  from row assms(3) show "index ci ! i ! s < length (distance_matrix ci ! s)"
    by (simp add: list_all_iff)
  from row assms(3) show "\<forall>r \<in> set (distance_matrix ci ! s). length r = length (distance_matrix ci ! s)"
    by (simp add: list_all_iff)
qed

lemma centroid_dists_ok:
  assumes "index_ok ci" "s < n_submat ci"
    and "list_all (\<lambda>i. i < length (index ci)) img1"
    and "list_all (\<lambda>i. i < length (index ci)) img2"
  shows "centroid_dists (distance_matrix ci ! s)
           (map (\<lambda>i. index ci ! i ! s) img1) (map (\<lambda>i. index ci ! i ! s) img2)
         = Inr (map (\<lambda>i. map (\<lambda>j. pq_dist ci s i j) img2) img1)"
proof -
  have "list_all (\<lambda>a. a < length (distance_matrix ci ! s) \<and>
           list_all (\<lambda>b. b < length (distance_matrix ci ! s ! a)) (map (\<lambda>i. index ci ! i ! s) img2))
         (map (\<lambda>i. index ci ! i ! s) img1)"
    using assms index_ok_row[OF assms(1) _ assms(2)]
    by (auto simp: list_all_iff)
  then show ?thesis
    by (simp add: centroid_dists_def pq_dist_def comp_def)
qed

text \<open>
  The loop invariant: after the subquantisers \<open>ss\<close>, every entry has grown by the sum of
  their distances.
\<close>

lemma distances_loop_sum:
  assumes "index_ok ci"
    and "list_all (\<lambda>i. i < length (index ci)) img1"
    and "list_all (\<lambda>i. i < length (index ci)) img2"
    and "list_all (\<lambda>s. s < n_submat ci) ss"
  shows "distances_loop ci img1 img2 ss (map (\<lambda>i. map (f i) img2) img1)
         = Inr (map (\<lambda>i. map (\<lambda>j. f i j + (\<Sum>s\<leftarrow>ss. pq_dist ci s i j)) img2) img1)"
  using assms(4)
proof (induction ss arbitrary: f)
  case Nil
  then show ?case by simp
next
  case (Cons s ss)
  then have s: "s < n_submat ci" and ss: "list_all (\<lambda>s. s < n_submat ci) ss" by simp_all
  have c1: "index_codes (index ci) img1 s = Inr (map (\<lambda>i. index ci ! i ! s) img1)"
    using assms(1,2) s index_ok_row(1)[OF assms(1) _ s]
    by (intro index_codes_ok) (auto simp: list_all_iff)
  have c2: "index_codes (index ci) img2 s = Inr (map (\<lambda>i. index ci ! i ! s) img2)"
    using assms(1,3) s index_ok_row(1)[OF assms(1) _ s]
    by (intro index_codes_ok) (auto simp: list_all_iff)
  have lt: "s < length (distance_matrix ci)" using s by (simp add: n_submat_def)
  show ?case
    by (simp add: c1 c2 lt centroid_dists_ok[OF assms(1) s assms(2,3)] mat_add_maps
          Cons.IH[OF ss] add.assoc)
qed

text \<open>
  C9, as the code has it. \<open>distances\<close> raises exactly when the first list of images is
  empty. For a non-empty first list (and images of the collection, on a well-formed index)
  it returns the matrix with one row per image of the first list and one column per image
  of the second, whose entries are the sums over the subquantisers of the
  centroid-to-centroid distances; an empty second list gives rows without entries.
\<close>

theorem distances_empty_query_and_sum:
  "distances ci [] img2 = Inl (ValueError NoQueryImages)
   \<and> (index_ok ci \<and> img1 \<noteq> []
        \<and> list_all (\<lambda>i. i < length (index ci)) img1
        \<and> list_all (\<lambda>i. i < length (index ci)) img2
      \<longrightarrow> distances ci img1 img2
          = Inr (map (\<lambda>i. map (\<lambda>j. \<Sum>s\<leftarrow>[0..<n_submat ci]. pq_dist ci s i j) img2) img1))"
proof (intro conjI impI)
  show "distances ci [] img2 = Inl (ValueError NoQueryImages)"
    by (simp add: distances_def)
next
  assume a: "index_ok ci \<and> img1 \<noteq> []
        \<and> list_all (\<lambda>i. i < length (index ci)) img1
        \<and> list_all (\<lambda>i. i < length (index ci)) img2"
  have z: "replicate (length img1) (replicate (length img2) (0::real))
           = map (\<lambda>i. map (\<lambda>j. 0) img2) img1"
    by (simp add: map_replicate_const)
  have r: "list_all (\<lambda>s. s < n_submat ci) [0..<n_submat ci]"
    by (simp add: list_all_iff)
  from a have ok: "index_ok ci" and i1: "list_all (\<lambda>i. i < length (index ci)) img1"
    and i2: "list_all (\<lambda>i. i < length (index ci)) img2" and ne: "img1 \<noteq> []"
    by simp_all
  show "distances ci img1 img2
          = Inr (map (\<lambda>i. map (\<lambda>j. \<Sum>s\<leftarrow>[0..<n_submat ci]. pq_dist ci s i j) img2) img1)"
    using ne
    by (simp add: distances_def Let_def z distances_loop_sum[OF ok i1 i2 r] del: replicate.simps)
qed

text \<open>
  An index of four images and two subquantisers with two centroids each, for the concrete
  instances.
\<close>

definition example_index :: CollectionIndex where
  "example_index =
     \<lparr>index = [[0, 1], [1, 0], [0, 0], [1, 1]],
      distance_matrix = [[[0, 2], [2, 0]], [[0, 5], [5, 0]]]\<rparr>"

lemma example_index_ok: "index_ok example_index"
  by (simp add: index_ok_def example_index_def n_submat_def upt_rec)

theorem distances_empty_query_and_sum_witness:
  "distances example_index [] [1] = Inl (ValueError NoQueryImages)
   \<and> index_ok example_index
   \<and> distances example_index [0, 1] [1] = Inr [[7], [0]]"
proof -
  have pre: "index_ok example_index \<and> [0, 1] \<noteq> ([]::nat list)
        \<and> list_all (\<lambda>i. i < length (index example_index)) [0, 1]
        \<and> list_all (\<lambda>i. i < length (index example_index)) [1]"
    by (simp add: example_index_ok) (simp add: example_index_def)
  have "distances example_index [0, 1] [1]
          = Inr (map (\<lambda>i. map (\<lambda>j. \<Sum>s\<leftarrow>[0..<n_submat example_index]. pq_dist example_index s i j) [1]) [0, 1])"
    using distances_empty_query_and_sum[of example_index "[1]" "[0, 1]"] pre by blast
  moreover have "n_submat example_index = 2"
    by (simp add: n_submat_def example_index_def)
  ultimately have "distances example_index [0, 1] [1] = Inr [[7], [0]]"
    by (simp add: pq_dist_def example_index_def upt_rec)
  then show ?thesis
    using distances_empty_query_and_sum[of example_index "[1]" "[0, 1]"] example_index_ok
    by simp
qed

text \<open>
  C9 as stated fails for an empty second list: the call does not raise, it returns a
  matrix with one empty row per query image.
\<close>

theorem distances_empty_second_list:
  "distances example_index [0, 1] [] = Inr [[], []]"
  by (simp add: distances_def example_index_def n_submat_def index_codes_def centroid_dists_def
        mat_add_def upt_rec Let_def)

section \<open>Concrete collaborators\<close>

text \<open>
  \<^verbatim>\<open>math.sqrt\<close> is the real square root. The equation below lets the evaluation of a
  concrete instance compute it at 0 and 1, the values it takes on an empty and on an
  all-good sliding window.
\<close>

lemma sqrt_zero_one [code]: "sqrt x = (if x = 0 then 0 else if x = 1 then 1 else sqrt x)"
  by simp

text \<open>
  Collaborators for the concrete instances: a collection of \<open>k\<close> images, a random
  generator without state whose \<^verbatim>\<open>random.sample\<close> returns the first elements of the
  population and whose \<^verbatim>\<open>np.random.rand\<close> draws zeros, Python sets enumerated in
  ascending order, a trainer that always returns the given decision function, and no
  nearest neighbours.
\<close>

definition example_env :: "nat \<Rightarrow> model_config \<Rightarrow> (nat \<Rightarrow> real) \<Rightarrow> unit env" where
  "example_env k cfg model =
     \<lparr>dataset_n = k, coll_index = example_index, config = cfg,
      random_sample = (\<lambda>r xs j. (take j xs, r)),
      np_random_rand = (\<lambda>r. (\<lambda>i. 0, r)),
      list_of_set = sorted_list_of_fset,
      svm_fit = (\<lambda>r idx j labels. (Inr model, r)),
      nn_suggs = (\<lambda>r imgs sc sn j prev. (Inr [], r))\<rparr>"

text \<open>Interactive learning only, and active learning with \<^verbatim>\<open>al_ratio\<close> 1.\<close>

definition config_rf :: model_config where
  "config_rf = \<lparr>n_sugg_candidates = 1000, expsearch = None, oracle_conf = Rf\<rparr>"

definition config_al :: model_config where
  "config_al = \<lparr>n_sugg_candidates = 1000, expsearch = None, oracle_conf = Al 1\<rparr>"

text \<open>Four images; the trained model scores image 0 with 2 and every other image with 1.\<close>

definition env_rf :: "unit env" where
  "env_rf = example_env 4 config_rf (\<lambda>i. if i = 0 then 2 else 1)"

text \<open>Four images; the trained model scores every image with 0.\<close>

definition env_zero :: "unit env" where
  "env_zero = example_env 4 config_rf (\<lambda>i. 0)"

text \<open>
  A session with three buckets, created in the order 1, 2, 3, each trained by the
  assignment of one image; then the same session after buckets 1 and 2 have swapped
  their places in the display.
\<close>

definition three_buckets :: "unit AIModel" where
  "three_buckets =
     fst (AIModel_user_feedback env_rf
            (fst (create_bucket env_rf (fst (create_bucket env_rf (AIModel_init env_rf ())))))
            [(0, Some 1), (1, Some 2), (2, Some 3)])"

definition three_buckets_swapped :: "unit AIModel" where
  "three_buckets_swapped = fst (swap_buckets three_buckets 1 2)"

section \<open>Properties of Bucket\<close>

text \<open>
  C7. With three empty lists \<^verbatim>\<open>Bucket.user_feedback\<close> returns at once: the bucket
  (precision, sliding windows, images, negatives and model among its fields) and the
  shared objects, the state of the random generators among them, are what they were,
  whatever the configuration, the trainer and the random generators are. Nothing is
  trained and nothing is sampled.
\<close>

theorem user_feedback_empty_noop:
  "Bucket_user_feedback e sh b [] [] [] = ((b, sh), None)"
  by (simp add: Bucket_user_feedback_def)

lemma clamp_unit:
  "b \<noteq> 0 \<Longrightarrow> \<exists>x. py_min (py_max (np_divide s b) (Fin 0)) (Fin 1) = Fin x \<and> 0 \<le> x \<and> x \<le> 1"
  by (auto simp: np_divide_def py_min_def py_max_def)

lemma clamp_best:
  "b \<noteq> 0 \<Longrightarrow> py_min (py_max (np_divide b b) (Fin 0)) (Fin 1) = Fin 1"
  by (simp add: np_divide_def py_min_def py_max_def)

lemma confidence_colors_unit:
  "\<forall>c \<in> set cs. \<exists>x. c = Fin x \<and> 0 \<le> x \<and> x \<le> 1 \<Longrightarrow> \<exists>cols. confidence_colors cs = Inr cols"
proof (induction cs)
  case Nil
  then show ?case by simp
next
  case (Cons c cs)
  then obtain x where "c = Fin x" "0 \<le> x" by auto
  moreover from Cons obtain cols where "confidence_colors cs = Inr cols" by auto
  ultimately show ?case
    by (simp add: confidence_color_def py_int_def CONF_ALPHA_BREAKPOINT_def)
qed

text \<open>
  What holds of C6: when the best score of the members is not zero, the recomputation
  succeeds, every member's confidence is a number between 0 and 1, and a member with the
  best score has confidence 1.
\<close>

lemma retrained_confidences:
  assumes "svm_model b = Some model" "images b \<noteq> []" "Max (set (map model (images b))) \<noteq> 0"
  shows "\<exists>b'. bucket_image_confidences b = (b', None)
          \<and> length (img_confidences b') = length (images b')
          \<and> images b' = images b
          \<and> (\<forall>i < length (images b').
                (\<exists>x. img_confidences b' ! i = Fin x \<and> 0 \<le> x \<and> x \<le> 1)
              \<and> (model (images b' ! i) = Max (set (map model (images b')))
                   \<longrightarrow> img_confidences b' ! i = Fin 1))"
proof -
  let ?scores = "map model (images b)"
  let ?best = "Max (set ?scores)"
  let ?b1 = "b\<lparr>img_svm_scores := ?scores, best_img_svm_score := ?best\<rparr>"
  let ?confs = "confidence ?b1 ?scores"
  have unit: "\<forall>c \<in> set ?confs. \<exists>x. c = Fin x \<and> 0 \<le> x \<and> x \<le> 1"
    using assms(3) clamp_unit[of ?best] by (auto simp: confidence_def)
  then obtain cols where cols: "confidence_colors ?confs = Inr cols"
    using confidence_colors_unit by blast
  have eq: "bucket_image_confidences b
              = (?b1\<lparr>img_confidences := ?confs, img_confidence_colors := cols\<rparr>, None)"
    using assms(1,2) cols by (simp add: bucket_image_confidences_def Let_def)
  have "\<forall>i < length (images b).
                (\<exists>x. ?confs ! i = Fin x \<and> 0 \<le> x \<and> x \<le> 1)
              \<and> (model (images b ! i) = ?best \<longrightarrow> ?confs ! i = Fin 1)"
  proof (intro allI impI conjI)
    fix i assume i: "i < length (images b)"
    then have "?confs ! i \<in> set ?confs" by (simp add: confidence_def)
    with unit show "\<exists>x. ?confs ! i = Fin x \<and> 0 \<le> x \<and> x \<le> 1" by blast
  next
    fix i assume i: "i < length (images b)" and m: "model (images b ! i) = ?best"
    have "?confs ! i = py_min (py_max (np_divide (model (images b ! i)) ?best) (Fin 0)) (Fin 1)"
      using i by (simp add: confidence_def)
    then show "?confs ! i = Fin 1" using m assms(3) clamp_best[of ?best] by simp
  qed
  then show ?thesis
    by (simp add: eq confidence_def)
qed

text \<open>
  C6 at a best score of zero. A new bucket is assigned image 0 and retrains; the trained
  model scores the image with 0. The quotient \<^verbatim>\<open>0.0/0.0\<close> is a NaN, which passes through
  \<^verbatim>\<open>max\<close> and \<^verbatim>\<open>min\<close>: the confidence of the only member, which has the best score, is
  not 1 and not in the unit interval, and the computation of its colour raises.
\<close>

theorem confidence_nan_at_zero_best_score:
  "(case Bucket_user_feedback env_zero (shared (AIModel_init env_zero ()))
            (Bucket_init env_zero 1 ''Bucket'' True 0) [] [0] [] of
      ((b, sh), err) \<Rightarrow> (images b, img_svm_scores b, best_img_svm_score b, img_confidences b, err))
   = ([0], [0], 0, [NaN], Some (ValueError CannotConvertNaN))"
  by code_simp

section \<open>Properties of the fast-forward of the discard pile\<close>

lemma n_discards_closed:
  "n_discards_per_bucket n_ff t = map (\<lambda>i. n_ff div t + (if i < n_ff mod t then 1 else 0)) [0..<t]"
  by (auto simp: n_discards_per_bucket_def Let_def list_eq_iff_nth_eq nth_append min_def)

lemma sum_n_discards: "0 < t \<Longrightarrow> sum_list (n_discards_per_bucket n_ff t) = n_ff"
proof -
  assume t: "0 < t"
  have k: "n_ff mod t \<le> t" using t by (simp add: less_imp_le)
  have "sum_list (n_discards_per_bucket n_ff t)
        = (n_ff mod t) * (n_ff div t + 1) + (t - n_ff mod t) * (n_ff div t)"
    using k by (simp add: n_discards_per_bucket_def Let_def sum_list_replicate min_def)
  also have "\<dots> = t * (n_ff div t) + n_ff mod t"
    using k by (simp add: algebra_simps)
  also have "\<dots> = n_ff" by simp
  finally show ?thesis .
qed

text \<open>
  C4, as the code has it. Without a trained bucket the fast-forward of the discard pile
  fails and changes nothing. With \<open>T \<ge> 1\<close> trained buckets it asks every trained bucket
  for \<open>n div T\<close> discard candidates, and for one more each of the first \<open>n mod T\<close> of them;
  the trained buckets are taken in the order of the bucket dictionary, which is the order
  of their creation, not in the order of display.
\<close>

theorem ff_discard_split:
  "(trained_buckets m = [] \<longrightarrow> ff_discard e m n_ff = (m, Some (ValueError NoTrainedBuckets)))
   \<and> ff_discard_requests m n_ff
       = map (\<lambda>i. (trained_buckets m ! i,
                    n_ff div length (trained_buckets m)
                      + (if i < n_ff mod length (trained_buckets m) then 1 else 0)))
           [0..<length (trained_buckets m)]
   \<and> (trained_buckets m \<noteq> [] \<longrightarrow>
        ff_discard e m n_ff =
          (case ff_discard_loop e m (ff_discard_requests m n_ff) [] of
             Inl err \<Rightarrow> (m, Some err)
           | Inr ff \<Rightarrow>
               (m\<lparr>shared := (shared m)\<lparr>discard_pile :=
                     (discard_pile (shared m))\<lparr>dp_outstanding_ff := ff\<rparr>\<rparr>\<rparr>, None)))"
proof (intro conjI impI)
  show "ff_discard_requests m n_ff
       = map (\<lambda>i. (trained_buckets m ! i,
                    n_ff div length (trained_buckets m)
                      + (if i < n_ff mod length (trained_buckets m) then 1 else 0)))
           [0..<length (trained_buckets m)]"
    unfolding ff_discard_requests_def n_discards_closed
    by (rule nth_equalityI) simp_all
qed (simp_all add: ff_discard_def DiscardPile_fast_forward_def split: sum.splits)

theorem ff_discard_split_witness:
  "trained_buckets (AIModel_init env_rf ()) = []
   \<and> ff_discard env_rf (AIModel_init env_rf ()) 10
       = (AIModel_init env_rf (), Some (ValueError NoTrainedBuckets))
   \<and> trained_buckets three_buckets = [1, 2, 3]
   \<and> ff_discard_requests three_buckets 10 = [(1, 4), (2, 3), (3, 3)]
   \<and> trained_buckets three_buckets \<noteq> []"
proof -
  have t0: "trained_buckets (AIModel_init env_rf ()) = []" by code_simp
  have t3: "trained_buckets three_buckets = [1, 2, 3]" by code_simp
  have "ff_discard_requests three_buckets 10 = [(1, 4), (2, 3), (3, 3)]"
    using ff_discard_split[of three_buckets env_rf 10] by (simp add: t3 upt_rec)
  moreover have "ff_discard env_rf (AIModel_init env_rf ()) 10
       = (AIModel_init env_rf (), Some (ValueError NoTrainedBuckets))"
    using ff_discard_split[of "AIModel_init env_rf ()" env_rf 10] t0 by simp
  ultimately show ?thesis using t0 t3 by simp
qed

text \<open>
  The trained buckets in display order, and the requests C4 describes: the remainder goes
  to the first buckets in display order.
\<close>

definition trained_buckets_display_order :: "'r AIModel \<Rightarrow> int list" where
  "trained_buckets_display_order m =
     map fst (sort_key (\<lambda>(b, bk). ordering bk) (filter (\<lambda>(b, bk). is_trained bk) (buckets m)))"

definition spec_ff_discard_requests :: "'r AIModel \<Rightarrow> nat \<Rightarrow> (int \<times> nat) list" where
  "spec_ff_discard_requests m n_ff =
     (let tb = trained_buckets_display_order m; t = length tb
      in map (\<lambda>i. (tb ! i, n_ff div t + (if i < n_ff mod t then 1 else 0))) [0..<t])"

text \<open>
  C4 as stated fails once the display order differs from the order of creation. After
  buckets 1 and 2 have swapped places, bucket 2 is displayed first; a fast-forward of 10
  asks bucket 1 for the extra candidate, where C4 gives it to bucket 2.
\<close>

theorem ff_discard_not_display_order:
  "map (\<lambda>(b, bk). (b, ordering bk)) (buckets three_buckets_swapped) = [(1, 1), (2, 0), (3, 2)]
   \<and> ff_discard_requests three_buckets_swapped 10 = [(1, 4), (2, 3), (3, 3)]
   \<and> spec_ff_discard_requests three_buckets_swapped 10 = [(2, 4), (1, 3), (3, 3)]"
  by code_simp

section \<open>Properties of the classification of feedback\<close>

text \<open>
  The classification table of the specification, in its words: for an assigned target
  \<open>a\<close> (the discard pile or a bucket) and the bucket \<open>s\<close> the image was suggested for, if
  any, the outcomes. An image counts as suggested for a bucket when the outstanding
  suggestions record a bucket other than 0 for it; the randomized explorer's suggestions
  carry 0.
\<close>

datatype routing = ToDiscard | GoodFor int | NeutralTo int | BadAgainst int

definition spec_table :: "int \<Rightarrow> int option \<Rightarrow> routing list" where
  "spec_table a s =
     (if a = BUCKET_ID
      then (case s of None \<Rightarrow> [ToDiscard] | Some b \<Rightarrow> [ToDiscard, BadAgainst b])
      else (case s of
              None \<Rightarrow> [NeutralTo a]
            | Some b \<Rightarrow> if a = b then [GoodFor a] else [NeutralTo a, BadAgainst b]))"

definition spec_suggested :: "(nat \<rightharpoonup> sugg) \<Rightarrow> nat \<Rightarrow> int option" where
  "spec_suggested os img =
     (if truthy (suggested_bucket os img) then suggested_bucket os img else None)"

text \<open>
  The images of a feedback that the table routes to an outcome, in the order of the
  feedback, and the images with an assigned target at all.
\<close>

definition routed :: "routing \<Rightarrow> (nat \<rightharpoonup> sugg) \<Rightarrow> (nat \<times> int option) list \<Rightarrow> nat list" where
  "routed r os fb =
     map fst (filter (\<lambda>(img, a). case a of
                                   None \<Rightarrow> False
                                 | Some x \<Rightarrow> r \<in> set (spec_table x (spec_suggested os img))) fb)"





lemma routed_Nil: "routed r os [] = []" by (simp add: routed_def)













section \<open>Properties of transfers\<close>

text \<open>
  C8, as the code has it. \<^verbatim>\<open>transfer_images\<close> fails without a change of state when the
  mode is invalid, when a copy names the discard pile, when the destination bucket of a
  copy is unknown, and when the source bucket of a move is unknown. A move is not atomic
  beyond that: it removes the images from the source first, one after the other, and only
  then looks the destination up. A failure of the removal is raised with the removals
  made before it in place; a destination bucket that is unknown is reported after the
  removal from the source has been completed. When the removal succeeds, the call goes
  on with the insertion into the destination.
\<close>

theorem transfer_images_failures:
  "(mode \<notin> set TRANSFER_MODES \<longrightarrow>
      transfer_images e m imgs src dst mode = (m, Some (ValueError InvalidTransferMode)))
   \<and> (mode = ''copy'' \<and> (src = BUCKET_ID \<or> dst = BUCKET_ID) \<longrightarrow>
      transfer_images e m imgs src dst mode = (m, Some (ValueError CopyDiscardPile)))
   \<and> (mode = ''copy'' \<and> src \<noteq> BUCKET_ID \<and> dst \<noteq> BUCKET_ID \<and> map_of (buckets m) dst = None \<longrightarrow>
      transfer_images e m imgs src dst mode = (m, Some (ValueError InvalidBucketKey)))
   \<and> (mode = ''move'' \<and> src \<noteq> BUCKET_ID \<and> map_of (buckets m) src = None \<longrightarrow>
      transfer_images e m imgs src dst mode = (m, Some (ValueError InvalidBucketKey)))
   \<and> (mode = ''move'' \<and> transfer_src e m imgs src = (m1, Some err) \<longrightarrow>
      transfer_images e m imgs src dst mode = (m1, Some err))
   \<and> (mode = ''move'' \<and> transfer_src e m imgs src = (m1, None)
        \<and> dst \<noteq> BUCKET_ID \<and> map_of (buckets m1) dst = None \<longrightarrow>
      transfer_images e m imgs src dst mode = (m1, Some (ValueError InvalidBucketKey)))
   \<and> (mode = ''move'' \<and> transfer_src e m imgs src = (m1, None) \<longrightarrow>
      transfer_images e m imgs src dst mode = transfer_dst e m1 imgs dst)"
  by (auto simp: transfer_images_def transfer_src_def transfer_dst_def TRANSFER_MODES_def)

text \<open>A removal whose first image is not in the bucket fails before it changes the bucket.\<close>

lemma remove_first_absent:
  "img \<notin> set (images b) \<Longrightarrow> img \<notin> set (outstanding_ff b) \<Longrightarrow>
   remove_images e sh b (img # imgs) = ((b, sh), Some (ValueError NotInBucket))"
  by (simp add: remove_images_def)


text \<open>
  C8 as stated fails. In the session with three buckets, bucket 1 holds image 0. Moving
  image 0 from bucket 1 to a bucket 99 that does not exist fails, and bucket 1 has lost
  the image and its model. Moving the images 0 and 3 from bucket 1 to bucket 2 fails,
  because image 3 is not in bucket 1, and bucket 1 has lost image 0, which bucket 2 has
  not received.
\<close>

theorem transfer_images_not_atomic:
  "map (\<lambda>(k, b). (k, images b, is_trained b)) (buckets three_buckets)
     = [(1, [0], True), (2, [1], True), (3, [2], True)]
   \<and> (case transfer_images env_rf three_buckets [0] 1 99 ''move'' of
        (m, err) \<Rightarrow> (map (\<lambda>(k, b). (k, images b, is_trained b)) (buckets m), err))
     = ([(1, [], False), (2, [1], True), (3, [2], True)], Some (ValueError InvalidBucketKey))
   \<and> (case transfer_images env_rf three_buckets [0, 3] 1 2 ''move'' of
        (m, err) \<Rightarrow> (map (\<lambda>(k, b). (k, images b, is_trained b)) (buckets m), err))
     = ([(1, [], True), (2, [1], True), (3, [2], True)], Some (ValueError NotInBucket))"
  by code_simp

theorem transfer_images_failures_witness:
  "''swap'' \<notin> set TRANSFER_MODES
   \<and> transfer_images env_rf three_buckets [0] 1 2 ''swap''
       = (three_buckets, Some (ValueError InvalidTransferMode))
   \<and> transfer_images env_rf three_buckets [0] 1 BUCKET_ID ''copy''
       = (three_buckets, Some (ValueError CopyDiscardPile))
   \<and> map_of (buckets three_buckets) 99 = None
   \<and> transfer_images env_rf three_buckets [0] 1 99 ''copy''
       = (three_buckets, Some (ValueError InvalidBucketKey))
   \<and> transfer_images env_rf three_buckets [0] 99 1 ''move''
       = (three_buckets, Some (ValueError InvalidBucketKey))
   \<and> snd (transfer_src env_rf three_buckets [0, 3] 1) = Some (ValueError NotInBucket)
   \<and> transfer_images env_rf three_buckets [0, 3] 1 2 ''move''
       = (fst (transfer_src env_rf three_buckets [0, 3] 1), Some (ValueError NotInBucket))
   \<and> snd (transfer_src env_rf three_buckets [0] 1) = None
   \<and> map_of (buckets (fst (transfer_src env_rf three_buckets [0] 1))) 99 = None
   \<and> transfer_images env_rf three_buckets [0] 1 99 ''move''
       = (fst (transfer_src env_rf three_buckets [0] 1), Some (ValueError InvalidBucketKey))"
proof -
  have k: "map fst (buckets three_buckets) = [1, 2, 3]" by code_simp
  have "99 \<notin> set (map fst (buckets three_buckets))" by (simp add: k)
  then have n99: "map_of (buckets three_buckets) 99 = None"
    by (simp add: map_of_eq_None_iff)
  have sw: "''swap'' \<notin> set TRANSFER_MODES" by (simp add: TRANSFER_MODES_def)
  have e3: "snd (transfer_src env_rf three_buckets [0, 3] 1) = Some (ValueError NotInBucket)"
    by code_simp
  have e0: "snd (transfer_src env_rf three_buckets [0] 1) = None" by code_simp
  have k1: "map fst (buckets (fst (transfer_src env_rf three_buckets [0] 1))) = [1, 2, 3]"
    by code_simp
  have "99 \<notin> set (map fst (buckets (fst (transfer_src env_rf three_buckets [0] 1))))"
    by (simp add: k1)
  then have m99: "map_of (buckets (fst (transfer_src env_rf three_buckets [0] 1))) 99 = None"
    by (simp add: map_of_eq_None_iff)
  have p3: "transfer_src env_rf three_buckets [0, 3] 1
              = (fst (transfer_src env_rf three_buckets [0, 3] 1), Some (ValueError NotInBucket))"
    using e3 by (metis prod.collapse)
  have p0: "transfer_src env_rf three_buckets [0] 1
              = (fst (transfer_src env_rf three_buckets [0] 1), None)"
    using e0 by (metis prod.collapse)
  have a1: "transfer_images env_rf three_buckets [0] 1 2 ''swap''
       = (three_buckets, Some (ValueError InvalidTransferMode))"
    using transfer_images_failures[of "''swap''" env_rf three_buckets "[0]" 1 2] sw by blast
  have a2: "transfer_images env_rf three_buckets [0] 1 BUCKET_ID ''copy''
       = (three_buckets, Some (ValueError CopyDiscardPile))"
    using transfer_images_failures[of "''copy''" env_rf three_buckets "[0]" 1 BUCKET_ID] by blast
  have a3: "transfer_images env_rf three_buckets [0] 1 99 ''copy''
       = (three_buckets, Some (ValueError InvalidBucketKey))"
    using transfer_images_failures[of "''copy''" env_rf three_buckets "[0]" 1 99] n99
    by (simp add: BUCKET_ID_def)
  have a4: "transfer_images env_rf three_buckets [0] 99 1 ''move''
       = (three_buckets, Some (ValueError InvalidBucketKey))"
    using transfer_images_failures[of "''move''" env_rf three_buckets "[0]" 99 1] n99
    by (simp add: BUCKET_ID_def)
  have a5: "transfer_images env_rf three_buckets [0, 3] 1 2 ''move''
       = (fst (transfer_src env_rf three_buckets [0, 3] 1), Some (ValueError NotInBucket))"
    using transfer_images_failures[of "''move''" env_rf three_buckets "[0, 3]" 1 2
            "fst (transfer_src env_rf three_buckets [0, 3] 1)" "ValueError NotInBucket"] p3
    by blast
  have a6: "transfer_images env_rf three_buckets [0] 1 99 ''move''
       = (fst (transfer_src env_rf three_buckets [0] 1), Some (ValueError InvalidBucketKey))"
    using transfer_images_failures[of "''move''" env_rf three_buckets "[0]" 1 99
            "fst (transfer_src env_rf three_buckets [0] 1)"] p0 m99
    by (simp add: BUCKET_ID_def)
  show ?thesis
    using sw a1 a2 n99 a3 a4 e3 a5 e0 m99 a6 by simp
qed

section \<open>Properties of the suggestions\<close>







































text \<open>
  Active learning over four images: image 0 is assigned to bucket 1 and then copied to
  bucket 2. Both buckets are trained, and image 0 is the only seen image.
\<close>

definition env_al :: "unit env" where
  "env_al = example_env 4 config_al (\<lambda>i. if i = 0 then 2 else 1)"

definition al_model :: "unit AIModel" where
  "al_model =
     fst (transfer_images env_al
            (fst (AIModel_user_feedback env_al
                    (fst (create_bucket env_al (AIModel_init env_al ()))) [(0, Some 1)]))
            [0] 1 2 ''copy'')"

text \<open>
  C3 fails for every bucket but the first one processed. In the session in
  active-learning mode, every suggestion becomes a query. Asked for five suggestions, bucket 2 returns the four images there are. When it
  is the only bucket of the request, the explorer adds the fifth; after one suggestion
  of bucket 1 the whole list has five entries, nothing is added, and the segment of
  bucket 2 has four entries.
\<close>

theorem suggest_top_up_compares_whole_list:
  "map (\<lambda>(k, b). (k, ordering b, is_trained b)) (buckets al_model) = [(1, 0, True), (2, 1, True)]
   \<and> seen (seen_images (shared al_model)) = {|0|}
   \<and> map_sum id (map s_bucket) (fst (AIModel_suggest env_al al_model [(2, 5)] True))
       = Inr [2, 2, 2, 2, 0]
   \<and> map_sum id (map s_bucket) (fst (AIModel_suggest env_al al_model [(1, 1), (2, 5)] True))
       = Inr [1, 2, 2, 2, 2]"
  by code_simp

end
